theory Spec2Isabelle
  imports Main "HOL-Library.AList"
begin

section \<open>JavaScript values used by the terminal core\<close>

text \<open>
  A value that is either \<^verbatim>\<open>null\<close> or a string is a \<open>string option\<close>. In a condition
  (\<^verbatim>\<open>if (v)\<close>, \<^verbatim>\<open>a || b\<close>, \<^verbatim>\<open>!v\<close>) JavaScript takes \<^verbatim>\<open>null\<close> and the empty string as
  false and every other string as true.
\<close>

definition truthy :: "string option \<Rightarrow> bool" where
  "truthy v = (case v of None \<Rightarrow> False | Some s \<Rightarrow> s \<noteq> [])"

definition js_or :: "string option \<Rightarrow> string option \<Rightarrow> string option" where
  "js_or a b = (if truthy a then a else b)"

text \<open>The decimal numeral of a counter, as template literals and concatenation print it.\<close>

definition digit_char :: "nat \<Rightarrow> char" where
  "digit_char d = ''0123456789'' ! d"

fun string_of_nat :: "nat \<Rightarrow> string" where
  "string_of_nat n =
     (if n < 10 then [digit_char n]
      else string_of_nat (n div 10) @ [digit_char (n mod 10)])"

declare string_of_nat.simps [simp del]

section \<open>PTY Manager (main process, \<^verbatim>\<open>src/main/ptyManager.js\<close>)\<close>

text \<open>
  \<^verbatim>\<open>ptyInstances\<close> is a \<^verbatim>\<open>Map<terminalId, {pty, cwd, projectPath}>\<close>, kept as an association
  list in insertion order. Of the node-pty process the model keeps what the manager does
  to it: the data written and the size set by \<^verbatim>\<open>resize\<close> (80 by 24 at spawn).
  \<open>env_home\<close> stands for \<^verbatim>\<open>process.env.HOME || process.env.USERPROFILE\<close>.
\<close>

record pty_process =
  pty_cwd :: "string option"
  pty_projectPath :: "string option"
  pty_written :: "string list"
  pty_cols :: nat
  pty_rows :: nat

record registry =
  ptyInstances :: "(string \<times> pty_process) list"
  pty_terminalCounter :: nat
  env_home :: "string option"

definition MAX_TERMINALS :: nat where
  "MAX_TERMINALS = 9"

text \<open>
  The two ways \<^verbatim>\<open>createTerminal\<close> throws: the explicit limit error, and \<^verbatim>\<open>pty.spawn\<close>
  failing (decided by the operating system, here the argument \<open>spawn_ok\<close>). The counter is
  incremented before the spawn, so a failed spawn still consumes a number.
\<close>

datatype pty_error = LimitReached | SpawnFailed

definition pty_createTerminal ::
  "registry \<Rightarrow> string option \<Rightarrow> string option \<Rightarrow> bool \<Rightarrow> registry \<times> (pty_error + string)" where
  "pty_createTerminal r workingDir projectPath spawn_ok =
     (if length (ptyInstances r) \<ge> MAX_TERMINALS then (r, Inl LimitReached)
      else
        let n = pty_terminalCounter r + 1;
            terminalId = ''term-'' @ string_of_nat n;
            cwd = js_or workingDir (env_home r);
            r1 = r\<lparr>pty_terminalCounter := n\<rparr>
        in if \<not> spawn_ok then (r1, Inl SpawnFailed)
           else (r1\<lparr>ptyInstances :=
                     AList.update terminalId
                       \<lparr>pty_cwd = cwd, pty_projectPath = projectPath,
                        pty_written = [], pty_cols = 80, pty_rows = 24\<rparr>
                       (ptyInstances r1)\<rparr>,
                 Inr terminalId))"

definition pty_writeToTerminal :: "registry \<Rightarrow> string \<Rightarrow> string \<Rightarrow> registry" where
  "pty_writeToTerminal r terminalId data =
     (case map_of (ptyInstances r) terminalId of
        None \<Rightarrow> r
      | Some inst \<Rightarrow>
          r\<lparr>ptyInstances :=
              AList.update terminalId (inst\<lparr>pty_written := pty_written inst @ [data]\<rparr>)
                (ptyInstances r)\<rparr>)"

definition pty_resizeTerminal :: "registry \<Rightarrow> string \<Rightarrow> nat \<Rightarrow> nat \<Rightarrow> registry" where
  "pty_resizeTerminal r terminalId cols rows =
     (case map_of (ptyInstances r) terminalId of
        None \<Rightarrow> r
      | Some inst \<Rightarrow>
          r\<lparr>ptyInstances :=
              AList.update terminalId (inst\<lparr>pty_cols := cols, pty_rows := rows\<rparr>)
                (ptyInstances r)\<rparr>)"

definition pty_destroyTerminal :: "registry \<Rightarrow> string \<Rightarrow> registry" where
  "pty_destroyTerminal r terminalId =
     (case map_of (ptyInstances r) terminalId of
        None \<Rightarrow> r
      | Some inst \<Rightarrow> r\<lparr>ptyInstances := AList.delete terminalId (ptyInstances r)\<rparr>)"

definition pty_destroyAll :: "registry \<Rightarrow> registry" where
  "pty_destroyAll r = r\<lparr>ptyInstances := []\<rparr>"

text \<open>The \<^verbatim>\<open>onExit\<close> callback of a process: the entry is deleted without a lookup.\<close>

definition pty_onExit :: "registry \<Rightarrow> string \<Rightarrow> registry" where
  "pty_onExit r terminalId = r\<lparr>ptyInstances := AList.delete terminalId (ptyInstances r)\<rparr>"

text \<open>
  The \<^verbatim>\<open>TERMINAL_CREATE\<close> handler of \<^verbatim>\<open>setupIPC\<close>: the exception of \<^verbatim>\<open>createTerminal\<close> is
  caught and becomes the reply \<^verbatim>\<open>{success: false, error}\<close>.
\<close>

datatype reply = Success string | Failure pty_error

definition ipc_terminal_create ::
  "registry \<Rightarrow> string option \<Rightarrow> string option \<Rightarrow> bool \<Rightarrow> registry \<times> reply" where
  "ipc_terminal_create r workingDir projectPath spawn_ok =
     (case pty_createTerminal r workingDir projectPath spawn_ok of
        (r', Inr terminalId) \<Rightarrow> (r', Success terminalId)
      | (r', Inl e) \<Rightarrow> (r', Failure e))"

section \<open>Terminal Manager (renderer, \<^verbatim>\<open>terminalManager.js\<close>)\<close>

text \<open>
  The \<^verbatim>\<open>state\<close> object of a terminal. \<open>tid\<close> is the field \<^verbatim>\<open>id\<close>; \<open>createdAt\<close> is the
  value of \<^verbatim>\<open>Date.now()\<close> at creation, an input of the model.
\<close>

record tstate =
  tid :: string
  name :: string
  customName :: "string option"
  isActive :: bool
  createdAt :: nat
  projectPath :: "string option"

text \<open>The record written to \<^verbatim>\<open>localStorage\<close> for one project key.\<close>

record session_data =
  sd_activeTerminalId :: "string option"
  sd_viewMode :: string
  sd_gridLayout :: string
  sd_terminalNames :: "(string \<times> string) list"

text \<open>The object handed to the \<^verbatim>\<open>onStateChange\<close> callback.\<close>

record snapshot =
  snap_terminals :: "tstate list"
  snap_activeTerminalId :: "string option"
  snap_viewMode :: string
  snap_gridLayout :: string
  snap_currentProjectPath :: "string option"

text \<open>
  \<^verbatim>\<open>terminals\<close> is a \<^verbatim>\<open>Map<id, {terminal, fitAddon, element, state}>\<close> whose key is always
  the \<^verbatim>\<open>id\<close> of the state it holds; the model keeps the states in insertion order and
  looks them up by \<open>tid\<close>. The xterm widget and the DOM element are left out.
  \<open>onStateChange\<close> tells whether a callback is installed, \<open>notified\<close> is the list of
  snapshots the callback has received, \<open>localStorage\<close> is the content of the storage item
  \<^verbatim>\<open>frame-terminal-sessions\<close> as \<^verbatim>\<open>JSON.parse\<close> returns it when the item can be read.
  Terminal ids are the ids of the PTY Manager (\<^verbatim>\<open>term-1\<close>, \<^verbatim>\<open>term-2\<close>, ...), none of which names
  a property of \<^verbatim>\<open>Object.prototype\<close>.
\<close>

record manager =
  terminals :: "tstate list"
  activeTerminalId :: "string option"
  viewMode :: string
  gridLayout :: string
  terminalCounter :: nat
  onStateChange :: bool
  currentProjectPath :: "string option"
  localStorage :: "(string \<times> session_data) list"
  notified :: "snapshot list"

definition maxTerminals :: nat where
  "maxTerminals = 9"

definition GLOBAL_PROJECT_KEY :: string where
  "GLOBAL_PROJECT_KEY = ''__global__''"

definition constructor :: manager where
  "constructor =
     \<lparr>terminals = [], activeTerminalId = None, viewMode = ''tabs'', gridLayout = ''2x2'',
      terminalCounter = 0, onStateChange = False, currentProjectPath = None,
      localStorage = [], notified = []\<rparr>"

subsection \<open>The map of terminals\<close>

definition get_terminal :: "tstate list \<Rightarrow> string \<Rightarrow> tstate option" where
  "get_terminal ts i = find (\<lambda>t. tid t = i) ts"

definition has_terminal :: "tstate list \<Rightarrow> string \<Rightarrow> bool" where
  "has_terminal ts i = (get_terminal ts i \<noteq> None)"

definition set_terminal :: "tstate list \<Rightarrow> tstate \<Rightarrow> tstate list" where
  "set_terminal ts t =
     (if has_terminal ts (tid t) then map (\<lambda>u. if tid u = tid t then t else u) ts
      else ts @ [t])"

definition delete_terminal :: "tstate list \<Rightarrow> string \<Rightarrow> tstate list" where
  "delete_terminal ts i = filter (\<lambda>t. tid t \<noteq> i) ts"

definition modify_terminal :: "string \<Rightarrow> (tstate \<Rightarrow> tstate) \<Rightarrow> tstate list \<Rightarrow> tstate list" where
  "modify_terminal i f ts = map (\<lambda>t. if tid t = i then f t else t) ts"

subsection \<open>Queries and notification\<close>

definition getTerminalsByProject :: "manager \<Rightarrow> string option \<Rightarrow> tstate list" where
  "getTerminalsByProject m p =
     sort_key createdAt (filter (\<lambda>t. projectPath t = p) (terminals m))"

definition getTerminalStates :: "manager \<Rightarrow> tstate list" where
  "getTerminalStates m =
     sort_key createdAt (filter (\<lambda>t. projectPath t = currentProjectPath m) (terminals m))"

definition current_snapshot :: "manager \<Rightarrow> snapshot" where
  "current_snapshot m =
     \<lparr>snap_terminals = getTerminalStates m,
      snap_activeTerminalId = activeTerminalId m,
      snap_viewMode = viewMode m,
      snap_gridLayout = gridLayout m,
      snap_currentProjectPath = currentProjectPath m\<rparr>"

definition notifyStateChange :: "manager \<Rightarrow> manager" where
  "notifyStateChange m =
     (if onStateChange m then m\<lparr>notified := notified m @ [current_snapshot m]\<rparr> else m)"

text \<open>The name a tab shows (\<^verbatim>\<open>t.customName || t.name\<close> in the tab bar and the grid).\<close>

definition displayName :: "tstate \<Rightarrow> string" where
  "displayName t = (if truthy (customName t) then the (customName t) else name t)"

subsection \<open>Operations\<close>

definition setActiveTerminal :: "manager \<Rightarrow> string \<Rightarrow> manager" where
  "setActiveTerminal m terminalId =
     (let m1 = (if truthy (activeTerminalId m)
                then m\<lparr>terminals :=
                        modify_terminal (the (activeTerminalId m)) (\<lambda>t. t\<lparr>isActive := False\<rparr>)
                          (terminals m)\<rparr>
                else m);
          m2 = m1\<lparr>activeTerminalId := Some terminalId\<rparr>;
          m3 = m2\<lparr>terminals :=
                    modify_terminal terminalId (\<lambda>t. t\<lparr>isActive := True\<rparr>) (terminals m2)\<rparr>
      in notifyStateChange m3)"

definition renameTerminal :: "manager \<Rightarrow> string \<Rightarrow> string \<Rightarrow> manager" where
  "renameTerminal m terminalId newName =
     (if has_terminal (terminals m) terminalId
      then notifyStateChange
             (m\<lparr>terminals :=
                  modify_terminal terminalId (\<lambda>t. t\<lparr>customName := Some newName, name := newName\<rparr>)
                    (terminals m)\<rparr>)
      else m)"

definition closeTerminal :: "manager \<Rightarrow> string \<Rightarrow> manager" where
  "closeTerminal m terminalId =
     (if has_terminal (terminals m) terminalId
      then
        let m1 = m\<lparr>terminals := delete_terminal (terminals m) terminalId\<rparr>;
            m2 = (if activeTerminalId m1 = Some terminalId
                  then
                    let remaining = map tid (terminals m1);
                        m' = m1\<lparr>activeTerminalId :=
                                  (if length remaining > 0 then Some (last remaining) else None)\<rparr>
                    in if truthy (activeTerminalId m')
                       then setActiveTerminal m' (the (activeTerminalId m'))
                       else m'
                  else m1)
        in notifyStateChange m2
      else m)"

definition setViewMode :: "manager \<Rightarrow> string \<Rightarrow> manager" where
  "setViewMode m mode = notifyStateChange (m\<lparr>viewMode := mode\<rparr>)"

definition setGridLayout :: "manager \<Rightarrow> string \<Rightarrow> manager" where
  "setGridLayout m layout = notifyStateChange (m\<lparr>gridLayout := layout\<rparr>)"

subsection \<open>Saving and restoring a project's session\<close>

definition sessionKey :: "string option \<Rightarrow> string" where
  "sessionKey p = (if truthy p then the p else GLOBAL_PROJECT_KEY)"

text \<open>
  The storage item is read with \<^verbatim>\<open>JSON.parse(localStorage.getItem(...) || '{}')\<close> and written
  with \<^verbatim>\<open>localStorage.setItem(..., JSON.stringify(...))\<close>, in both functions inside
  \<^verbatim>\<open>try { ... } catch (err) { console.error(...) }\<close>. Whether the storage works is decided
  outside the program (an item that does not parse, a storage that refuses access or is
  full): it is the argument \<open>storage_ok\<close> of the functions that touch the storage. An
  exception is the value \<open>Inl StorageError\<close> of the \<^verbatim>\<open>try\<close> block, and the \<^verbatim>\<open>catch\<close> clause
  turns it into the manager as it was when the function was called.
\<close>

datatype storage_error = StorageError

definition readSessions ::
  "manager \<Rightarrow> bool \<Rightarrow> storage_error + (string \<times> session_data) list" where
  "readSessions m storage_ok = (if storage_ok then Inr (localStorage m) else Inl StorageError)"

definition writeSessions ::
  "manager \<Rightarrow> (string \<times> session_data) list \<Rightarrow> bool \<Rightarrow> storage_error + manager" where
  "writeSessions m allSessions storage_ok =
     (if storage_ok then Inr (m\<lparr>localStorage := allSessions\<rparr>) else Inl StorageError)"

text \<open>
  The assignment \<^verbatim>\<open>obj[key] = value\<close> on a plain object. For the key \<^verbatim>\<open>__proto__\<close>, unless
  the object has a property of that name of its own (as \<^verbatim>\<open>JSON.parse\<close> can create one),
  it does not create a property: it sets the prototype, or does nothing for a string, so
  that \<^verbatim>\<open>JSON.stringify\<close> does not write the value. Reading \<^verbatim>\<open>obj[key]\<close> for a key that is
  not stored is \<open>None\<close>: for the keys of \<^verbatim>\<open>Object.prototype\<close> the source reads an object
  without any of the fields of a session, which it treats as it treats \<^verbatim>\<open>undefined\<close>.
\<close>

definition js_assign :: "string \<Rightarrow> 'v \<Rightarrow> (string \<times> 'v) list \<Rightarrow> (string \<times> 'v) list" where
  "js_assign key v obj =
     (if key = ''__proto__'' \<and> map_of obj key = None then obj else AList.update key v obj)"

definition saveProjectSession_try ::
  "manager \<Rightarrow> string \<Rightarrow> session_data \<Rightarrow> bool \<Rightarrow> storage_error + manager" where
  "saveProjectSession_try m key sessionData storage_ok =
     (case readSessions m storage_ok of
        Inl err \<Rightarrow> Inl err
      | Inr allSessions \<Rightarrow>
          writeSessions m (js_assign key sessionData allSessions) storage_ok)"

definition saveProjectSession :: "manager \<Rightarrow> string option \<Rightarrow> bool \<Rightarrow> manager" where
  "saveProjectSession m p storage_ok =
     (let projectTerminals = getTerminalsByProject m p
      in if length projectTerminals = 0 then m
         else
           let sessionData =
                 \<lparr>sd_activeTerminalId = activeTerminalId m,
                  sd_viewMode = viewMode m,
                  sd_gridLayout = gridLayout m,
                  sd_terminalNames =
                    foldl (\<lambda>names t. if truthy (customName t)
                                      then js_assign (tid t) (the (customName t)) names
                                      else names)
                      [] projectTerminals\<rparr>
           in case saveProjectSession_try m (sessionKey p) sessionData storage_ok of
                Inr m' \<Rightarrow> m'
              | Inl err \<Rightarrow> m)"

definition restoreName :: "session_data \<Rightarrow> manager \<Rightarrow> tstate \<Rightarrow> manager" where
  "restoreName sessionData m t =
     (if truthy (map_of (sd_terminalNames sessionData) (tid t))
      then m\<lparr>terminals :=
               modify_terminal (tid t)
                 (\<lambda>u. u\<lparr>customName := map_of (sd_terminalNames sessionData) (tid t),
                        name := the (map_of (sd_terminalNames sessionData) (tid t))\<rparr>)
                 (terminals m)\<rparr>
      else m)"

definition restoreFallback :: "manager \<Rightarrow> string option \<Rightarrow> manager" where
  "restoreFallback m p =
     (let projectTerminals = getTerminalsByProject m p
      in if length projectTerminals > 0
         then setActiveTerminal m (tid (hd projectTerminals))
         else m\<lparr>activeTerminalId := None\<rparr>)"

definition restoreProjectSession_try ::
  "manager \<Rightarrow> string option \<Rightarrow> bool \<Rightarrow> storage_error + manager" where
  "restoreProjectSession_try m p storage_ok =
     (case readSessions m storage_ok of
        Inl err \<Rightarrow> Inl err
      | Inr allSessions \<Rightarrow>
          Inr (case map_of allSessions (sessionKey p) of
                 Some sessionData \<Rightarrow>
                   let m1 = (if sd_viewMode sessionData \<noteq> []
                             then m\<lparr>viewMode := sd_viewMode sessionData\<rparr> else m);
                       m2 = (if sd_gridLayout sessionData \<noteq> []
                             then m1\<lparr>gridLayout := sd_gridLayout sessionData\<rparr> else m1);
                       m3 = foldl (restoreName sessionData) m2 (getTerminalsByProject m2 p)
                   in if truthy (sd_activeTerminalId sessionData)
                         \<and> (case get_terminal (terminals m3)
                                    (the (sd_activeTerminalId sessionData)) of
                               Some terminal \<Rightarrow> projectPath terminal = p
                             | None \<Rightarrow> False)
                      then setActiveTerminal m3 (the (sd_activeTerminalId sessionData))
                      else restoreFallback m3 p
               | None \<Rightarrow> restoreFallback m p))"

definition restoreProjectSession :: "manager \<Rightarrow> string option \<Rightarrow> bool \<Rightarrow> manager" where
  "restoreProjectSession m p storage_ok =
     (case restoreProjectSession_try m p storage_ok of
        Inr m' \<Rightarrow> m'
      | Inl err \<Rightarrow> m)"

text \<open>
  \<open>save_ok\<close> and \<open>restore_ok\<close> tell whether the storage works in \<^verbatim>\<open>saveProjectSession\<close> and
  in \<^verbatim>\<open>restoreProjectSession\<close> of this call.
\<close>

definition setCurrentProject :: "manager \<Rightarrow> string option \<Rightarrow> bool \<Rightarrow> bool \<Rightarrow> manager" where
  "setCurrentProject m p save_ok restore_ok =
     (let m1 = (if currentProjectPath m \<noteq> p
                then saveProjectSession m (currentProjectPath m) save_ok else m);
          m2 = m1\<lparr>currentProjectPath := p\<rparr>;
          m3 = restoreProjectSession m2 p restore_ok
      in notifyStateChange m3)"

subsection \<open>Creating a terminal\<close>

text \<open>
  The \<^verbatim>\<open>options\<close> object; \<open>opt_projectPath = None\<close> is \<^verbatim>\<open>undefined\<close> (use the current
  project), \<open>Some None\<close> is \<^verbatim>\<open>null\<close> (the global scope).
\<close>

record create_options =
  opt_cwd :: "string option"
  opt_projectPath :: "string option option"
  opt_name :: "string option"

definition initializeTerminal ::
  "manager \<Rightarrow> string \<Rightarrow> create_options \<Rightarrow> nat \<Rightarrow> manager" where
  "initializeTerminal m terminalId options now =
     (let m1 = (if truthy (opt_name options) then m
                else m\<lparr>terminalCounter := terminalCounter m + 1\<rparr>);
          state =
            \<lparr>tid = terminalId,
             name = (if truthy (opt_name options) then the (opt_name options)
                     else ''Terminal '' @ string_of_nat (terminalCounter m1)),
             customName = None,
             isActive = False,
             createdAt = now,
             projectPath = (case opt_projectPath options of
                              Some pp \<Rightarrow> pp | None \<Rightarrow> currentProjectPath m1)\<rparr>;
          m2 = m1\<lparr>terminals := set_terminal (terminals m1) state\<rparr>;
          m3 = (if length (terminals m2) = 1 \<or> \<not> truthy (activeTerminalId m2)
                then setActiveTerminal m2 terminalId else m2)
      in notifyStateChange m3)"

section \<open>The two processes together\<close>

text \<open>
  The renderer and the main process exchange messages over Electron's IPC channels; each
  direction is a queue. A message of \<open>to_main\<close> is handled by the matching \<^verbatim>\<open>ipcMain.on\<close>
  handler of \<^verbatim>\<open>setupIPC\<close>, a message of \<open>to_renderer\<close> by the listeners of the renderer (the
  output of the shells, which only feeds the xterm widgets, is left out).
\<close>

datatype main_msg =
    TERMINAL_CREATE "string option" "string option"
  | TERMINAL_DESTROY string
  | TERMINAL_INPUT_ID string string
  | TERMINAL_RESIZE_ID string nat nat

datatype renderer_msg =
    TERMINAL_CREATED reply
  | TERMINAL_DESTROYED string

text \<open>
  \<open>listeners\<close> holds the \<^verbatim>\<open>TERMINAL_CREATED\<close> handlers that pending calls of
  \<^verbatim>\<open>createTerminal\<close> have registered, in the order of registration; a handler is given by
  the options it will pass to \<^verbatim>\<open>_initializeTerminal\<close>.
\<close>

record system =
  reg :: registry
  store :: manager
  listeners :: "create_options list"
  to_main :: "main_msg list"
  to_renderer :: "renderer_msg list"

text \<open>
  \<^verbatim>\<open>TerminalManager.createTerminal\<close>: at the limit the promise resolves to \<^verbatim>\<open>null\<close> and
  nothing else happens; otherwise a handler is registered, the request is sent and the
  promise stays pending until a reply arrives.
\<close>

datatype create_result = Null | Pending

definition createTerminal :: "system \<Rightarrow> create_options \<Rightarrow> system \<times> create_result" where
  "createTerminal s options =
     (if length (terminals (store s)) \<ge> maxTerminals then (s, Null)
      else
        let projectPath = (case opt_projectPath options of
                             Some pp \<Rightarrow> pp | None \<Rightarrow> currentProjectPath (store s));
            workingDir = js_or (opt_cwd options) (js_or projectPath None)
        in (s\<lparr>listeners :=
                 listeners s
                 @ [options\<lparr>opt_projectPath := Some projectPath, opt_cwd := workingDir\<rparr>],
               to_main := to_main s @ [TERMINAL_CREATE workingDir projectPath]\<rparr>,
            Pending))"

text \<open>
  A \<^verbatim>\<open>TERMINAL_CREATED\<close> reply is emitted to every handler registered at that moment: the
  handlers are not tied to their requests. Each handler removes itself and, when the
  reply reports success, calls \<^verbatim>\<open>_initializeTerminal\<close> with the id of the reply and its own
  options and resolves its promise; otherwise it rejects its promise. \<open>clock\<close> holds the
  readings of \<^verbatim>\<open>Date.now()\<close> in the successive handlers (0 when the list is used up).
\<close>

fun initializeAll ::
  "manager \<Rightarrow> string \<Rightarrow> create_options list \<Rightarrow> nat list \<Rightarrow> manager" where
  "initializeAll m terminalId [] clock = m"
| "initializeAll m terminalId (options # rest) clock =
     initializeAll
       (initializeTerminal m terminalId options (case clock of [] \<Rightarrow> 0 | now # _ \<Rightarrow> now))
       terminalId rest (tl clock)"

datatype settlement = Resolved string | Rejected pty_error

definition onTerminalCreated ::
  "system \<Rightarrow> reply \<Rightarrow> nat list \<Rightarrow> system \<times> settlement list" where
  "onTerminalCreated s response clock =
     (case response of
        Success terminalId \<Rightarrow>
          (s\<lparr>listeners := [],
             store := initializeAll (store s) terminalId (listeners s) clock\<rparr>,
           map (\<lambda>handler. Resolved terminalId) (listeners s))
      | Failure e \<Rightarrow>
          (s\<lparr>listeners := []\<rparr>, map (\<lambda>handler. Rejected e) (listeners s)))"

text \<open>The \<^verbatim>\<open>TERMINAL_DESTROYED\<close> listener of \<^verbatim>\<open>_setupIPC\<close>.\<close>

definition onTerminalDestroyed :: "system \<Rightarrow> string \<Rightarrow> system" where
  "onTerminalDestroyed s terminalId =
     (if has_terminal (terminals (store s)) terminalId
      then s\<lparr>store := closeTerminal (store s) terminalId,
             to_main := to_main s @ [TERMINAL_DESTROY terminalId]\<rparr>
      else s)"

definition renderer_receive :: "system \<Rightarrow> nat list \<Rightarrow> system" where
  "renderer_receive s clock =
     (case to_renderer s of
        [] \<Rightarrow> s
      | msg # rest \<Rightarrow>
          (case msg of
             TERMINAL_CREATED response \<Rightarrow>
               fst (onTerminalCreated (s\<lparr>to_renderer := rest\<rparr>) response clock)
           | TERMINAL_DESTROYED terminalId \<Rightarrow>
               onTerminalDestroyed (s\<lparr>to_renderer := rest\<rparr>) terminalId))"

text \<open>The handlers of \<^verbatim>\<open>setupIPC\<close> in the main process.\<close>

definition main_receive :: "system \<Rightarrow> bool \<Rightarrow> system" where
  "main_receive s spawn_ok =
     (case to_main s of
        [] \<Rightarrow> s
      | msg # rest \<Rightarrow>
          (case msg of
             TERMINAL_CREATE workingDir project \<Rightarrow>
               (case ipc_terminal_create (reg s) workingDir project spawn_ok of
                  (r', response) \<Rightarrow>
                    s\<lparr>to_main := rest, reg := r',
                      to_renderer := to_renderer s @ [TERMINAL_CREATED response]\<rparr>)
           | TERMINAL_DESTROY terminalId \<Rightarrow>
               s\<lparr>to_main := rest, reg := pty_destroyTerminal (reg s) terminalId\<rparr>
           | TERMINAL_INPUT_ID terminalId data \<Rightarrow>
               s\<lparr>to_main := rest, reg := pty_writeToTerminal (reg s) terminalId data\<rparr>
           | TERMINAL_RESIZE_ID terminalId cols rows \<Rightarrow>
               s\<lparr>to_main := rest, reg := pty_resizeTerminal (reg s) terminalId cols rows\<rparr>))"

text \<open>
  What the user, the shells and the two event loops can make happen. \<open>MainReceive\<close> and
  \<open>RendererReceive\<close> handle the first message of a queue (nothing happens on an empty
  queue); \<open>spawn_ok\<close> only matters for a \<^verbatim>\<open>TERMINAL_CREATE\<close>. \<open>ProcessExit\<close> is the \<^verbatim>\<open>onExit\<close>
  callback of a shell, which deletes the entry and sends \<^verbatim>\<open>TERMINAL_DESTROYED\<close>.
  \<open>CloseTerminal\<close> is \<^verbatim>\<open>closeTerminal\<close> with its \<^verbatim>\<open>TERMINAL_DESTROY\<close> message, sent when the
  terminal was in the map. \<open>TerminalInput\<close> and \<open>TerminalResize\<close> are the messages of
  \<^verbatim>\<open>terminal.onData\<close>, \<^verbatim>\<open>sendCommand\<close> and \<^verbatim>\<open>_sendResize\<close>. \<open>Subscribe\<close> installs the
  \<^verbatim>\<open>onStateChange\<close> callback.
\<close>

datatype event =
    CreateTerminal create_options
  | MainReceive bool
  | RendererReceive "nat list"
  | CloseTerminal string
  | ProcessExit string
  | SetCurrentProject "string option" bool bool
  | SetActiveTerminal string
  | RenameTerminal string string
  | SetViewMode string
  | SetGridLayout string
  | TerminalInput string string
  | TerminalResize string nat nat
  | Subscribe

fun step :: "system \<Rightarrow> event \<Rightarrow> system" where
  "step s (CreateTerminal options) = fst (createTerminal s options)"
| "step s (MainReceive spawn_ok) = main_receive s spawn_ok"
| "step s (RendererReceive clock) = renderer_receive s clock"
| "step s (CloseTerminal i) =
     (if has_terminal (terminals (store s)) i
      then s\<lparr>store := closeTerminal (store s) i, to_main := to_main s @ [TERMINAL_DESTROY i]\<rparr>
      else s\<lparr>store := closeTerminal (store s) i\<rparr>)"
| "step s (ProcessExit i) =
     s\<lparr>reg := pty_onExit (reg s) i, to_renderer := to_renderer s @ [TERMINAL_DESTROYED i]\<rparr>"
| "step s (SetCurrentProject p save_ok restore_ok) =
     s\<lparr>store := setCurrentProject (store s) p save_ok restore_ok\<rparr>"
| "step s (SetActiveTerminal i) = s\<lparr>store := setActiveTerminal (store s) i\<rparr>"
| "step s (RenameTerminal i n) = s\<lparr>store := renameTerminal (store s) i n\<rparr>"
| "step s (SetViewMode v) = s\<lparr>store := setViewMode (store s) v\<rparr>"
| "step s (SetGridLayout g) = s\<lparr>store := setGridLayout (store s) g\<rparr>"
| "step s (TerminalInput i d) = s\<lparr>to_main := to_main s @ [TERMINAL_INPUT_ID i d]\<rparr>"
| "step s (TerminalResize i c r) = s\<lparr>to_main := to_main s @ [TERMINAL_RESIZE_ID i c r]\<rparr>"
| "step s Subscribe = s\<lparr>store := (store s)\<lparr>onStateChange := True\<rparr>\<rparr>"

definition run :: "system \<Rightarrow> event list \<Rightarrow> system" where
  "run s evs = foldl step s evs"

definition init :: "string option \<Rightarrow> system" where
  "init home =
     \<lparr>reg = \<lparr>ptyInstances = [], pty_terminalCounter = 0, env_home = home\<rparr>,
      store = constructor, listeners = [], to_main = [], to_renderer = []\<rparr>"

text \<open>
  A whole round trip of \<^verbatim>\<open>createTerminal\<close> with nothing in between: the call, the main
  process handling the request with a shell that starts, the renderer handling the reply
  at time \<open>now\<close>.
\<close>

definition create_round_trip :: "create_options \<Rightarrow> nat \<Rightarrow> event list" where
  "create_round_trip options now =
     [CreateTerminal options, MainReceive True, RendererReceive [now]]"

section \<open>Auxiliary notions for the proofs\<close>

text \<open>
  What the loop over \<^verbatim>\<open>projectTerminals\<close> in \<^verbatim>\<open>restoreProjectSession\<close> does to one state
  object, for the ids \<open>ids\<close> the loop visits.
\<close>

definition applyName :: "session_data \<Rightarrow> string set \<Rightarrow> tstate \<Rightarrow> tstate" where
  "applyName sd ids u =
     (if tid u \<in> ids \<and> truthy (map_of (sd_terminalNames sd) (tid u))
      then u\<lparr>customName := map_of (sd_terminalNames sd) (tid u),
             name := the (map_of (sd_terminalNames sd) (tid u))\<rparr>
      else u)"

text \<open>The manager after the view settings and the names of a saved session are applied.\<close>

definition restoredView :: "manager \<Rightarrow> string option \<Rightarrow> session_data \<Rightarrow> manager" where
  "restoredView m p sd =
     m\<lparr>viewMode := (if sd_viewMode sd \<noteq> [] then sd_viewMode sd else viewMode m),
       gridLayout := (if sd_gridLayout sd \<noteq> [] then sd_gridLayout sd else gridLayout m),
       terminals :=
         map (applyName sd (tid ` {t \<in> set (terminals m). projectPath t = p})) (terminals m)\<rparr>"

text \<open>What \<^verbatim>\<open>setActiveTerminal\<close> does to one state object.\<close>

definition activation :: "string option \<Rightarrow> string \<Rightarrow> tstate \<Rightarrow> tstate" where
  "activation prev i t =
     (if tid t = i then t\<lparr>isActive := True\<rparr>
      else if truthy prev \<and> tid t = the prev then t\<lparr>isActive := False\<rparr>
      else t)"

text \<open>
  The manager in which \<^verbatim>\<open>restoreProjectSession\<close> runs inside \<^verbatim>\<open>setCurrentProject\<close>: the
  session of the project that is left has been saved and the current project is the new
  one.
\<close>

definition leaveProject :: "manager \<Rightarrow> string option \<Rightarrow> bool \<Rightarrow> manager" where
  "leaveProject m p save_ok =
     (if currentProjectPath m \<noteq> p then saveProjectSession m (currentProjectPath m) save_ok
      else m)
       \<lparr>currentProjectPath := p\<rparr>"

text \<open>
  The saved \<^verbatim>\<open>activeTerminalId\<close> of project \<open>p\<close> is the id of a terminal in the map that
  belongs to \<open>p\<close>.
\<close>

definition persistedActiveIsLive :: "manager \<Rightarrow> string option \<Rightarrow> bool" where
  "persistedActiveIsLive m p =
     (case map_of (localStorage m) (sessionKey p) of
        None \<Rightarrow> False
      | Some sd \<Rightarrow>
          (case sd_activeTerminalId sd of
             None \<Rightarrow> False
           | Some a \<Rightarrow>
               (case get_terminal (terminals m) a of
                  None \<Rightarrow> False
                | Some t \<Rightarrow> projectPath t = p)))"

text \<open>
  The active pointer designates an active terminal of project \<open>p\<close> (\<open>activeInScope\<close>), and
  moreover one whose \<^verbatim>\<open>createdAt\<close> is least among the terminals of \<open>p\<close> (\<open>oldestActive\<close>).
\<close>

definition activeInScope :: "manager \<Rightarrow> string option \<Rightarrow> bool" where
  "activeInScope m p =
     (\<exists>t \<in> set (terminals m). activeTerminalId m = Some (tid t) \<and> isActive t \<and> projectPath t = p)"

definition oldestActive :: "manager \<Rightarrow> string option \<Rightarrow> bool" where
  "oldestActive m p =
     (\<exists>t \<in> set (terminals m).
        activeTerminalId m = Some (tid t) \<and> isActive t \<and> projectPath t = p
        \<and> (\<forall>u \<in> set (terminals m). projectPath u = p \<longrightarrow> createdAt t \<le> createdAt u))"

text \<open>
  The active pointer is \<^verbatim>\<open>null\<close> or designates a terminal of the map that is marked
  active.
\<close>

definition pointer_ok :: "manager \<Rightarrow> bool" where
  "pointer_ok m =
     (activeTerminalId m = None
      \<or> (\<exists>t \<in> set (terminals m). activeTerminalId m = Some (tid t) \<and> isActive t))"

text \<open>
  A terminal that has a \<^verbatim>\<open>customName\<close> has the same string as \<^verbatim>\<open>name\<close>.
\<close>

definition names_agree :: "manager \<Rightarrow> bool" where
  "names_agree m =
     list_all (\<lambda>t. customName t = None \<or> customName t = Some (name t)) (terminals m)"

text \<open>
  The property the specification states for the \<^verbatim>\<open>isActive\<close> flags: every project that
  has a terminal has exactly one terminal with the flag set.
\<close>

definition singleActivePerScope :: "manager \<Rightarrow> bool" where
  "singleActivePerScope m =
     list_all (\<lambda>p. length (filter (\<lambda>t. projectPath t = p \<and> isActive t) (terminals m)) = 1)
       (map projectPath (terminals m))"

text \<open>
  The ids the PTY Manager has handed out when its counter is \<open>n\<close>, the ids of the
  successful replies that wait in a queue, and the invariant of all runs: the Terminal
  Manager and the waiting replies only hold ids that were handed out, no id waits twice,
  and no waiting id is in the map already.
\<close>

definition issued_ids :: "nat \<Rightarrow> string list" where
  "issued_ids n = map (\<lambda>k. ''term-'' @ string_of_nat k) [1..<Suc n]"

fun created_ids :: "renderer_msg list \<Rightarrow> string list" where
  "created_ids [] = []"
| "created_ids (TERMINAL_CREATED (Success i) # q) = i # created_ids q"
| "created_ids (msg # q) = created_ids q"

definition ids_issued :: "system \<Rightarrow> bool" where
  "ids_issued s =
     (set (map tid (terminals (store s))) \<subseteq> set (issued_ids (pty_terminalCounter (reg s)))
      \<and> set (created_ids (to_renderer s)) \<subseteq> set (issued_ids (pty_terminalCounter (reg s)))
      \<and> distinct (created_ids (to_renderer s))
      \<and> set (map tid (terminals (store s))) \<inter> set (created_ids (to_renderer s)) = {})"

text \<open>
  A call of \<^verbatim>\<open>createTerminal\<close> can only register a handler below the limit: while a handler
  waits, the map has fewer than \<open>maxTerminals\<close> entries.
\<close>

definition room_for_pending :: "system \<Rightarrow> bool" where
  "room_for_pending s =
     (length (terminals (store s)) \<le> maxTerminals
      \<and> (listeners s = [] \<or> length (terminals (store s)) < maxTerminals))"

text \<open>
  Sequences of events in which \<^verbatim>\<open>setActiveTerminal\<close> is only given ids of terminals in the
  map (as the tab bar, the grid and the shortcuts do), and \<^verbatim>\<open>createTerminal\<close> is only
  called when no earlier call is still pending.
\<close>

fun event_ok :: "system \<Rightarrow> event \<Rightarrow> bool" where
  "event_ok s (SetActiveTerminal i) = has_terminal (terminals (store s)) i"
| "event_ok s (CreateTerminal options) = (listeners s = [])"
| "event_ok s e = True"

fun run_ok :: "system \<Rightarrow> event list \<Rightarrow> bool" where
  "run_ok s [] = True"
| "run_ok s (e # es) = (event_ok s e \<and> run_ok (step s e) es)"

text \<open>The options the handler of a \<^verbatim>\<open>createTerminal\<close> call passes to \<^verbatim>\<open>_initializeTerminal\<close>.\<close>

definition created_options :: "manager \<Rightarrow> create_options \<Rightarrow> create_options" where
  "created_options m options =
     options\<lparr>opt_projectPath :=
               Some (case opt_projectPath options of
                       Some pp \<Rightarrow> pp | None \<Rightarrow> currentProjectPath m),
             opt_cwd :=
               js_or (opt_cwd options)
                 (js_or (case opt_projectPath options of
                           Some pp \<Rightarrow> pp | None \<Rightarrow> currentProjectPath m) None)\<rparr>"

section \<open>Example inputs\<close>

definition default_options :: create_options where
  "default_options = \<lparr>opt_cwd = None, opt_projectPath = None, opt_name = None\<rparr>"

text \<open>Only the callback is installed; one terminal; nine terminals in the global scope.\<close>

definition subscribed :: system where
  "subscribed = run (init None) [Subscribe]"

definition one_terminal :: system where
  "one_terminal = run subscribed (create_round_trip default_options 1)"

definition nine_terminals :: system where
  "nine_terminals =
     run subscribed (concat (map (create_round_trip default_options) [1..<10]))"

text \<open>
  A terminal in the global scope, then a second one created after entering the project
  \<^verbatim>\<open>/B\<close>: entering the empty project resets the active pointer and leaves the flag of the
  first terminal set.
\<close>

definition two_scopes :: system where
  "two_scopes =
     run one_terminal
       (SetCurrentProject (Some ''/B'') True True # create_round_trip default_options 2)"

text \<open>
  A terminal of project \<^verbatim>\<open>/B\<close> is created and the project is left (which saves its record),
  the terminal is closed from outside and the project is entered again: the project has
  a saved record and no terminal.
\<close>

definition closed_scope :: system where
  "closed_scope =
     run subscribed
       (SetCurrentProject (Some ''/B'') True True # create_round_trip default_options 1
        @ [SetCurrentProject None True True, CloseTerminal ''term-1'',
           SetCurrentProject (Some ''/B'') True True])"

text \<open>
  A terminal of project \<^verbatim>\<open>/A\<close> is renamed to \<^verbatim>\<open>db\<close>, the project is left, and the terminal
  is renamed again to \<^verbatim>\<open>web\<close>: the saved record still holds \<^verbatim>\<open>db\<close>.
\<close>

definition stale_name :: system where
  "stale_name =
     run subscribed
       (SetCurrentProject (Some ''/A'') True True # create_round_trip default_options 1
        @ [RenameTerminal ''term-1'' ''db'', SetCurrentProject None True True,
           RenameTerminal ''term-1'' ''web''])"

definition stale_name_terminal :: tstate where
  "stale_name_terminal =
     \<lparr>tid = ''term-1'', name = ''web'', customName = Some ''web'', isActive = True,
      createdAt = 1, projectPath = Some ''/A''\<rparr>"

definition stale_name_record :: session_data where
  "stale_name_record =
     \<lparr>sd_activeTerminalId = Some ''term-1'', sd_viewMode = ''tabs'', sd_gridLayout = ''2x2'',
      sd_terminalNames = [(''term-1'', ''db'')]\<rparr>"

text \<open>
  One terminal in each of the projects \<^verbatim>\<open>/A\<close> and \<^verbatim>\<open>/B\<close>, and back in \<^verbatim>\<open>/A\<close>.
\<close>

definition back_in_A :: system where
  "back_in_A =
     run subscribed
       (SetCurrentProject (Some ''/A'') True True # create_round_trip default_options 1
        @ SetCurrentProject (Some ''/B'') True True # create_round_trip default_options 2
        @ [SetCurrentProject (Some ''/A'') True True])"

text \<open>
  Two terminals in \<^verbatim>\<open>/A\<close>, a third in \<^verbatim>\<open>/B\<close>, and back in \<^verbatim>\<open>/A\<close>, where \<^verbatim>\<open>term-1\<close>
  is the active terminal again.
\<close>

definition close_in_A :: system where
  "close_in_A =
     run subscribed
       (SetCurrentProject (Some ''/A'') True True # create_round_trip default_options 1
        @ create_round_trip default_options 2
        @ SetCurrentProject (Some ''/B'') True True # create_round_trip default_options 3
        @ [SetCurrentProject (Some ''/A'') True True])"

text \<open>Two terminals; the second is selected and then closed.\<close>

definition select_and_close :: "event list" where
  "select_and_close =
     Subscribe # create_round_trip default_options 1 @ create_round_trip default_options 2
     @ [SetActiveTerminal ''term-2'', CloseTerminal ''term-2'', MainReceive True]"

text \<open>
  Three terminals in \<^verbatim>\<open>/A\<close> with \<^verbatim>\<open>term-2\<close> active; the project is left (its record names
  \<^verbatim>\<open>term-2\<close>), a terminal of the global scope is created and becomes the active one, and
  the shell of \<^verbatim>\<open>term-2\<close> exits.
\<close>

definition stale_active :: system where
  "stale_active =
     run subscribed
       (SetCurrentProject (Some ''/A'') True True # create_round_trip default_options 1
        @ create_round_trip default_options 2 @ create_round_trip default_options 3
        @ [SetActiveTerminal ''term-2'', SetCurrentProject None True True]
        @ create_round_trip default_options 4
        @ [ProcessExit ''term-2'', RendererReceive [], MainReceive True])"

text \<open>
  Two calls of \<^verbatim>\<open>createTerminal\<close> in the project \<^verbatim>\<open>/B\<close> before the main process answers,
  while a terminal of the global scope exists; then the first reply is due.
\<close>

definition two_creates_pending :: system where
  "two_creates_pending =
     run one_terminal
       [SetCurrentProject (Some ''/B'') True True, CreateTerminal default_options,
        CreateTerminal default_options, MainReceive True, MainReceive True]"

text \<open>
  A terminal of the global scope exists, the project \<^verbatim>\<open>/B\<close> is entered and one call of
  \<^verbatim>\<open>createTerminal\<close> has been answered by the main process: its reply is due.
\<close>

definition create_in_B_pending :: "event list" where
  "create_in_B_pending =
     Subscribe # create_round_trip default_options 1
     @ [SetCurrentProject (Some ''/B'') True True, CreateTerminal default_options,
        MainReceive True]"

text \<open>
  The shell of the only terminal has exited and the renderer has handled the
  \<^verbatim>\<open>TERMINAL_DESTROYED\<close> message: its \<^verbatim>\<open>TERMINAL_DESTROY\<close> for the id that the registry no
  longer holds waits in the queue.
\<close>

definition exited_and_closed :: system where
  "exited_and_closed = run one_terminal [ProcessExit ''term-1'', RendererReceive []]"

text \<open>A reply that reports a failed spawn is due, with its handler waiting.\<close>

definition failed_create_pending :: system where
  "failed_create_pending =
     run one_terminal [CreateTerminal default_options, MainReceive False]"

section \<open>Basic facts about the map of terminals\<close>

lemma map_tid_modify_terminal:
  "(\<And>t. tid (f t) = tid t) \<Longrightarrow> map tid (modify_terminal i f ts) = map tid ts"
  by (induction ts) (auto simp: modify_terminal_def)

lemma has_terminal_iff: "has_terminal ts i \<longleftrightarrow> i \<in> tid ` set ts"
  by (induction ts) (auto simp: has_terminal_def get_terminal_def)

lemma get_terminal_None_iff: "get_terminal ts i = None \<longleftrightarrow> i \<notin> tid ` set ts"
  by (induction ts) (auto simp: get_terminal_def)

lemma get_terminal_modify:
  "(\<And>t. tid (f t) = tid t) \<Longrightarrow>
   get_terminal (modify_terminal i f ts) j =
     (if j = i then map_option f (get_terminal ts j) else get_terminal ts j)"
  by (induction ts) (auto simp: modify_terminal_def get_terminal_def)

lemma get_terminal_delete:
  "get_terminal (delete_terminal ts i) j = (if j = i then None else get_terminal ts j)"
  by (induction ts) (auto simp: delete_terminal_def get_terminal_def)

lemma modify_terminal_absent:
  "\<not> has_terminal ts i \<Longrightarrow> modify_terminal i f ts = ts"
  by (induction ts) (auto simp: modify_terminal_def has_terminal_def get_terminal_def)

lemma has_terminal_delete_self [simp]: "\<not> has_terminal (delete_terminal ts i) i"
  by (auto simp: has_terminal_iff delete_terminal_def)

section \<open>Fields an operation leaves alone\<close>

lemma notifyStateChange_fields [simp]:
  "terminals (notifyStateChange m) = terminals m"
  "activeTerminalId (notifyStateChange m) = activeTerminalId m"
  "localStorage (notifyStateChange m) = localStorage m"
  "currentProjectPath (notifyStateChange m) = currentProjectPath m"
  "viewMode (notifyStateChange m) = viewMode m"
  "gridLayout (notifyStateChange m) = gridLayout m"
  "onStateChange (notifyStateChange m) = onStateChange m"
  "terminalCounter (notifyStateChange m) = terminalCounter m"
  by (simp_all add: notifyStateChange_def)

lemma setActiveTerminal_fields [simp]:
  "activeTerminalId (setActiveTerminal m i) = Some i"
  "localStorage (setActiveTerminal m i) = localStorage m"
  "currentProjectPath (setActiveTerminal m i) = currentProjectPath m"
  "viewMode (setActiveTerminal m i) = viewMode m"
  "gridLayout (setActiveTerminal m i) = gridLayout m"
  "onStateChange (setActiveTerminal m i) = onStateChange m"
  "terminalCounter (setActiveTerminal m i) = terminalCounter m"
  by (simp_all add: setActiveTerminal_def Let_def)

lemma terminals_setActiveTerminal:
  "terminals (setActiveTerminal m i) =
     modify_terminal i (\<lambda>t. t\<lparr>isActive := True\<rparr>)
       (if truthy (activeTerminalId m)
        then modify_terminal (the (activeTerminalId m)) (\<lambda>t. t\<lparr>isActive := False\<rparr>) (terminals m)
        else terminals m)"
  by (simp add: setActiveTerminal_def Let_def)

lemma map_tid_setActiveTerminal [simp]:
  "map tid (terminals (setActiveTerminal m j)) = map tid (terminals m)"
  by (simp add: terminals_setActiveTerminal map_tid_modify_terminal)

lemma has_terminal_setActiveTerminal [simp]:
  "has_terminal (terminals (setActiveTerminal m j)) i = has_terminal (terminals m) i"
  unfolding has_terminal_iff set_map [symmetric] by simp

section \<open>Unknown ids in the PTY Manager, closing twice\<close>

lemma closeTerminal_absent: "\<not> has_terminal (terminals m) i \<Longrightarrow> closeTerminal m i = m"
  by (simp add: closeTerminal_def)

lemma has_terminal_closeTerminal_self [simp]:
  "\<not> has_terminal (terminals (closeTerminal m i)) i"
  by (simp add: closeTerminal_def Let_def)

lemma closeTerminal_idem: "closeTerminal (closeTerminal m i) i = closeTerminal m i"
  by (rule closeTerminal_absent) simp

lemma pty_destroyTerminal_absent:
  "map_of (ptyInstances r) i = None \<Longrightarrow> pty_destroyTerminal r i = r"
  by (simp add: pty_destroyTerminal_def)

lemma map_of_pty_destroyTerminal_self [simp]:
  "map_of (ptyInstances (pty_destroyTerminal r i)) i = None"
  by (simp add: pty_destroyTerminal_def delete_conv' split: option.split)

lemma pty_destroyTerminal_idem:
  "pty_destroyTerminal (pty_destroyTerminal r i) i = pty_destroyTerminal r i"
  by (rule pty_destroyTerminal_absent) simp

text \<open>
  Claim C7. For an id that is not in \<^verbatim>\<open>ptyInstances\<close>, \<^verbatim>\<open>writeToTerminal\<close>,
  \<^verbatim>\<open>resizeTerminal\<close> and \<^verbatim>\<open>destroyTerminal\<close> return the registry as it was (none of them
  has an error result), and so does the main process when it handles a
  \<^verbatim>\<open>TERMINAL_DESTROY\<close> message for such an id. Destroying is idempotent, and so is closing:
  the second \<^verbatim>\<open>closeTerminal\<close> of the same id changes nothing in the Terminal Manager (no
  notification either) and sends no message to the main process.
\<close>

theorem C7_unknown_session_is_ignored:
  "(map_of (ptyInstances r) i = None \<longrightarrow>
      pty_writeToTerminal r i d = r \<and> pty_resizeTerminal r i c w = r
      \<and> pty_destroyTerminal r i = r)
   \<and> pty_destroyTerminal (pty_destroyTerminal r i) i = pty_destroyTerminal r i
   \<and> closeTerminal (closeTerminal m i) i = closeTerminal m i
   \<and> step (step s (CloseTerminal i)) (CloseTerminal i) = step s (CloseTerminal i)
   \<and> (map_of (ptyInstances (reg s)) i = None \<and> to_main s = TERMINAL_DESTROY i # q \<longrightarrow>
        main_receive s spawn_ok = s\<lparr>to_main := q\<rparr>)"
proof -
  have a: "map_of (ptyInstances r) i = None \<longrightarrow>
      pty_writeToTerminal r i d = r \<and> pty_resizeTerminal r i c w = r
      \<and> pty_destroyTerminal r i = r"
    by (simp add: pty_writeToTerminal_def pty_resizeTerminal_def pty_destroyTerminal_def)
  have b: "step (step s (CloseTerminal i)) (CloseTerminal i) = step s (CloseTerminal i)"
    by (simp add: closeTerminal_idem closeTerminal_absent)
  have c: "map_of (ptyInstances (reg s)) i = None \<and> to_main s = TERMINAL_DESTROY i # q \<longrightarrow>
        main_receive s spawn_ok = s\<lparr>to_main := q\<rparr>"
    by (simp add: main_receive_def pty_destroyTerminal_absent)
  show ?thesis using a b c by (simp add: pty_destroyTerminal_idem closeTerminal_idem)
qed

theorem C7_unknown_session_witness:
  "map_of (ptyInstances (reg one_terminal)) ''term-2'' = None
   \<and> pty_writeToTerminal (reg one_terminal) ''term-2'' ''ls'' = reg one_terminal
   \<and> pty_resizeTerminal (reg one_terminal) ''term-2'' 100 40 = reg one_terminal
   \<and> pty_destroyTerminal (reg one_terminal) ''term-2'' = reg one_terminal
   \<and> map_of (ptyInstances (reg exited_and_closed)) ''term-1'' = None
   \<and> to_main exited_and_closed = [TERMINAL_DESTROY ''term-1'']
   \<and> main_receive exited_and_closed True = exited_and_closed\<lparr>to_main := []\<rparr>"
proof -
  have h: "map_of (ptyInstances (reg one_terminal)) ''term-2'' = None"
    by code_simp
  have k: "map_of (ptyInstances (reg exited_and_closed)) ''term-1'' = None"
    by code_simp
  have l: "to_main exited_and_closed = [TERMINAL_DESTROY ''term-1'']"
    by code_simp
  show ?thesis
    using h k l
      C7_unknown_session_is_ignored [where r = "reg one_terminal" and i = "''term-2''"
        and d = "''ls''" and c = 100 and w = 40]
      C7_unknown_session_is_ignored [where s = exited_and_closed and i = "''term-1''"
        and q = "[]" and spawn_ok = True]
    by blast
qed

section \<open>Saving and restoring a session\<close>

lemma restoreName_only_terminals:
  "restoreName sd m t = m\<lparr>terminals := terminals (restoreName sd m t)\<rparr>"
  by (simp add: restoreName_def)

lemma terminals_restoreName:
  "terminals (restoreName sd m t) = map (applyName sd {tid t}) (terminals m)"
  by (induction "terminals m") (auto simp: restoreName_def applyName_def modify_terminal_def intro!: map_idI [symmetric])

lemma applyName_applyName:
  "applyName sd A (applyName sd B u) = applyName sd (A \<union> B) u"
  by (auto simp: applyName_def)

lemma applyName_empty [simp]: "applyName sd {} u = u"
  by (simp add: applyName_def)

lemma foldl_restoreName:
  "foldl (restoreName sd) m ts = m\<lparr>terminals := map (applyName sd (tid ` set ts)) (terminals m)\<rparr>"
proof (induction ts arbitrary: m)
  case Nil
  show ?case by (simp add: map_idI)
next
  case (Cons t ts)
  have "restoreName sd m t = m\<lparr>terminals := map (applyName sd {tid t}) (terminals m)\<rparr>"
    using restoreName_only_terminals [of sd m t] by (simp add: terminals_restoreName)
  then show ?case
    by (simp add: Cons.IH applyName_applyName Un_commute insert_commute o_def)
qed

lemma getTerminalsByProject_ids:
  "tid ` set (getTerminalsByProject m p) = tid ` {t \<in> set (terminals m). projectPath t = p}"
  by (simp add: getTerminalsByProject_def)

lemma getTerminalsByProject_Nil_iff:
  "getTerminalsByProject m p = [] \<longleftrightarrow> p \<notin> projectPath ` set (terminals m)"
proof -
  have "getTerminalsByProject m p = [] \<longleftrightarrow> length (getTerminalsByProject m p) = 0" by simp
  also have "\<dots> \<longleftrightarrow> filter (\<lambda>t. projectPath t = p) (terminals m) = []"
    unfolding getTerminalsByProject_def length_sort by simp
  also have "\<dots> \<longleftrightarrow> p \<notin> projectPath ` set (terminals m)"
    by (auto simp: filter_empty_conv)
  finally show ?thesis .
qed

lemma saveProjectSession_try_cases:
  "saveProjectSession_try m key sd storage_ok =
     (if storage_ok then Inr (m\<lparr>localStorage := js_assign key sd (localStorage m)\<rparr>)
      else Inl StorageError)"
  by (simp add: saveProjectSession_try_def readSessions_def writeSessions_def)

lemma saveProjectSession_fields [simp]:
  "terminals (saveProjectSession m p ok) = terminals m"
  "activeTerminalId (saveProjectSession m p ok) = activeTerminalId m"
  "currentProjectPath (saveProjectSession m p ok) = currentProjectPath m"
  "viewMode (saveProjectSession m p ok) = viewMode m"
  "gridLayout (saveProjectSession m p ok) = gridLayout m"
  "onStateChange (saveProjectSession m p ok) = onStateChange m"
  "terminalCounter (saveProjectSession m p ok) = terminalCounter m"
  "notified (saveProjectSession m p ok) = notified m"
  by (simp_all add: saveProjectSession_def saveProjectSession_try_cases Let_def)

lemma saveProjectSession_empty:
  "getTerminalsByProject m p = [] \<Longrightarrow> saveProjectSession m p ok = m"
  by (simp add: saveProjectSession_def)

lemma saveProjectSession_failed: "saveProjectSession m p False = m"
  by (simp add: saveProjectSession_def saveProjectSession_try_cases Let_def)

lemma restoreFallback_fields [simp]:
  "localStorage (restoreFallback m p) = localStorage m"
  "currentProjectPath (restoreFallback m p) = currentProjectPath m"
  "viewMode (restoreFallback m p) = viewMode m"
  "gridLayout (restoreFallback m p) = gridLayout m"
  "onStateChange (restoreFallback m p) = onStateChange m"
  "terminalCounter (restoreFallback m p) = terminalCounter m"
  by (simp_all add: restoreFallback_def Let_def)

lemma restoreProjectSession_failed: "restoreProjectSession m p False = m"
  by (simp add: restoreProjectSession_def restoreProjectSession_try_def readSessions_def)

lemma restoreProjectSession_try_readable:
  "restoreProjectSession_try m p True = Inr (restoreProjectSession m p True)"
  by (simp add: restoreProjectSession_def restoreProjectSession_try_def readSessions_def)

lemma restoreProjectSession_Some:
  assumes "map_of (localStorage m) (sessionKey p) = Some sd"
  shows "restoreProjectSession m p True =
     (if truthy (sd_activeTerminalId sd)
         \<and> (case get_terminal (terminals (restoredView m p sd)) (the (sd_activeTerminalId sd)) of
               Some terminal \<Rightarrow> projectPath terminal = p | None \<Rightarrow> False)
      then setActiveTerminal (restoredView m p sd) (the (sd_activeTerminalId sd))
      else restoreFallback (restoredView m p sd) p)"
proof -
  let ?m2 = "if sd_gridLayout sd \<noteq> []
           then (if sd_viewMode sd \<noteq> [] then m\<lparr>viewMode := sd_viewMode sd\<rparr> else m)
                  \<lparr>gridLayout := sd_gridLayout sd\<rparr>
           else (if sd_viewMode sd \<noteq> [] then m\<lparr>viewMode := sd_viewMode sd\<rparr> else m)"
  have t: "terminals ?m2 = terminals m" by simp
  have "foldl (restoreName sd) ?m2 (getTerminalsByProject ?m2 p)
        = ?m2\<lparr>terminals := map (applyName sd (tid ` {t \<in> set (terminals m). projectPath t = p}))
                            (terminals m)\<rparr>"
    unfolding foldl_restoreName getTerminalsByProject_ids t ..
  also have "\<dots> = restoredView m p sd"
    by (simp add: restoredView_def)
  finally have m3: "foldl (restoreName sd) ?m2 (getTerminalsByProject ?m2 p) = restoredView m p sd" .
  show ?thesis
    unfolding restoreProjectSession_def restoreProjectSession_try_def readSessions_def
    using assms by (simp add: Let_def m3)
qed

lemma restoreProjectSession_None:
  "map_of (localStorage m) (sessionKey p) = None \<Longrightarrow>
   restoreProjectSession m p True = restoreFallback m p"
  by (simp add: restoreProjectSession_def restoreProjectSession_try_def readSessions_def)

lemma restoredView_fields [simp]:
  "localStorage (restoredView m p sd) = localStorage m"
  "currentProjectPath (restoredView m p sd) = currentProjectPath m"
  "onStateChange (restoredView m p sd) = onStateChange m"
  "activeTerminalId (restoredView m p sd) = activeTerminalId m"
  "notified (restoredView m p sd) = notified m"
  "terminalCounter (restoredView m p sd) = terminalCounter m"
  by (simp_all add: restoredView_def)

lemma localStorage_restoreProjectSession [simp]:
  "localStorage (restoreProjectSession m p ok) = localStorage m"
  by (cases ok; cases "map_of (localStorage m) (sessionKey p)")
     (simp_all add: restoreProjectSession_None restoreProjectSession_Some
        restoreProjectSession_failed)

text \<open>
  Claim C8. \<^verbatim>\<open>saveProjectSession\<close> for a project without a terminal returns the manager
  as it was, so nothing is written and the stored records of this and of every other
  project stay as they are, whether the storage works or not (the function returns before
  it touches the storage). The same holds for the storage across a whole
  \<^verbatim>\<open>setCurrentProject\<close> that leaves a project without terminals (restoring only reads).
\<close>

theorem C8_empty_scope_is_not_saved:
  "(getTerminalsByProject m p = [] \<longrightarrow> saveProjectSession m p storage_ok = m)
   \<and> (getTerminalsByProject m (currentProjectPath m) = [] \<longrightarrow>
        localStorage (setCurrentProject m q save_ok restore_ok) = localStorage m)"
  by (simp add: saveProjectSession_empty setCurrentProject_def Let_def)

theorem C8_empty_scope_witness:
  "getTerminalsByProject (store closed_scope) (Some ''/B'') = []
   \<and> currentProjectPath (store closed_scope) = Some ''/B''
   \<and> map fst (localStorage (store closed_scope)) = [''/B'']
   \<and> saveProjectSession (store closed_scope) (Some ''/B'') True = store closed_scope
   \<and> localStorage (setCurrentProject (store closed_scope) None True True)
       = localStorage (store closed_scope)"
proof -
  have h: "getTerminalsByProject (store closed_scope) (Some ''/B'') = []"
    by code_simp
  have c: "currentProjectPath (store closed_scope) = Some ''/B''"
    by code_simp
  have k: "map fst (localStorage (store closed_scope)) = [''/B'']"
    by code_simp
  show ?thesis
    using h c k
      C8_empty_scope_is_not_saved [where m = "store closed_scope" and p = "Some ''/B''"
        and q = None and storage_ok = True and save_ok = True and restore_ok = True]
    by simp
qed

section \<open>Renaming and restoring names\<close>

lemma has_terminal_modify [simp]:
  "(\<And>t. tid (f t) = tid t) \<Longrightarrow> has_terminal (modify_terminal i f ts) j = has_terminal ts j"
  unfolding has_terminal_iff set_map [symmetric] by (simp add: map_tid_modify_terminal)

lemma get_terminal_map:
  "(\<And>t. tid (g t) = tid t) \<Longrightarrow> get_terminal (map g ts) i = map_option g (get_terminal ts i)"
  by (induction ts) (auto simp: get_terminal_def)

lemma get_terminal_SomeD:
  "get_terminal ts i = Some t \<Longrightarrow> t \<in> set ts \<and> tid t = i"
  by (induction ts) (auto simp: get_terminal_def split: if_splits)

lemma terminals_setActiveTerminal_map:
  "terminals (setActiveTerminal m i) = map (activation (activeTerminalId m) i) (terminals m)"
  by (auto simp: terminals_setActiveTerminal modify_terminal_def activation_def)

lemma activation_fields [simp]:
  "tid (activation prev i t) = tid t"
  "name (activation prev i t) = name t"
  "customName (activation prev i t) = customName t"
  "createdAt (activation prev i t) = createdAt t"
  "projectPath (activation prev i t) = projectPath t"
  by (simp_all add: activation_def)

lemma applyName_fields [simp]:
  "tid (applyName sd A t) = tid t"
  "isActive (applyName sd A t) = isActive t"
  "createdAt (applyName sd A t) = createdAt t"
  "projectPath (applyName sd A t) = projectPath t"
  by (simp_all add: applyName_def)

lemma renameTerminal_present:
  assumes "get_terminal (terminals m) i = Some t"
  shows "get_terminal (terminals (renameTerminal m i n)) i = Some (t\<lparr>customName := Some n, name := n\<rparr>)"
  using assms by (simp add: renameTerminal_def has_terminal_def get_terminal_modify)

lemma renameTerminal_forgets_name:
  "renameTerminal (m\<lparr>terminals := modify_terminal i (\<lambda>t. t\<lparr>name := x\<rparr>) (terminals m)\<rparr>) i n
     = renameTerminal m i n"
proof -
  have h: "has_terminal (modify_terminal i (\<lambda>t. t\<lparr>name := x\<rparr>) (terminals m)) i
           = has_terminal (terminals m) i"
    unfolding has_terminal_iff set_map [symmetric] by (simp add: map_tid_modify_terminal)
  have "modify_terminal i (\<lambda>t. t\<lparr>customName := Some n, name := n\<rparr>)
          (modify_terminal i (\<lambda>t. t\<lparr>name := x\<rparr>) ts)
        = modify_terminal i (\<lambda>t. t\<lparr>customName := Some n, name := n\<rparr>) ts" for ts
    by (induction ts) (auto simp: modify_terminal_def)
  then show ?thesis by (simp add: renameTerminal_def h modify_terminal_absent)
qed

lemma displayName_renamed [simp]: "displayName (t\<lparr>customName := Some n, name := n\<rparr>) = n"
  by (simp add: displayName_def truthy_def)

lemma restoreFallback_terminals:
  "\<exists>prev i. terminals (restoreFallback m p) = map (activation prev i) (terminals m)
     \<or> terminals (restoreFallback m p) = terminals m"
  by (auto simp: restoreFallback_def Let_def terminals_setActiveTerminal_map)

lemma restore_applies_name:
  assumes sd: "map_of (localStorage m) (sessionKey p) = Some sd"
    and t: "get_terminal (terminals m) i = Some t"
    and p: "projectPath t = p"
    and s: "map_of (sd_terminalNames sd) i = Some s" "s \<noteq> []"
  shows "\<exists>t'. get_terminal (terminals (restoreProjectSession m p True)) i = Some t'
            \<and> name t' = s \<and> customName t' = Some s \<and> displayName t' = s"
proof -
  let ?A = "tid ` {t \<in> set (terminals m). projectPath t = p}"
  let ?v = "restoredView m p sd"
  from t have mem: "t \<in> set (terminals m)" "tid t = i" using get_terminal_SomeD by blast+
  with p have iA: "tid t \<in> ?A" by blast
  have tv: "get_terminal (terminals ?v) i = Some (applyName sd ?A t)"
    by (simp add: restoredView_def get_terminal_map t)
  have an: "name (applyName sd ?A t) = s \<and> customName (applyName sd ?A t) = Some s"
    using iA s mem by (simp add: applyName_def truthy_def)
  have "terminals (restoreProjectSession m p True) = terminals ?v
        \<or> (\<exists>prev j. terminals (restoreProjectSession m p True) = map (activation prev j) (terminals ?v))"
    using restoreFallback_terminals [of ?v p]
    by (auto simp: restoreProjectSession_Some [OF sd] terminals_setActiveTerminal_map)
  then show ?thesis
  proof
    assume "terminals (restoreProjectSession m p True) = terminals ?v"
    then show ?thesis using tv an by (simp add: displayName_def truthy_def s)
  next
    assume "\<exists>prev j. terminals (restoreProjectSession m p True) = map (activation prev j) (terminals ?v)"
    then obtain prev j where "terminals (restoreProjectSession m p True) = map (activation prev j) (terminals ?v)"
      by blast
    then have "get_terminal (terminals (restoreProjectSession m p True)) i
               = Some (activation prev j (applyName sd ?A t))"
      by (simp add: get_terminal_map tv)
    then show ?thesis using an by (simp add: displayName_def truthy_def s)
  qed
qed

section \<open>Activating an id that is not in the map\<close>

text \<open>
  Claim C10, as the code has it. \<^verbatim>\<open>setActiveTerminal\<close> with an id that is not in the map
  sets the active pointer to that id, marks no terminal active, and clears the flag of the
  terminal the pointer designated before. The flags of all other terminals stay: no
  terminal is left active only if the designated one was the only active one.
\<close>

theorem C10_unknown_id_becomes_active_pointer:
  "\<not> has_terminal (terminals m) i \<longrightarrow>
     activeTerminalId (setActiveTerminal m i) = Some i
     \<and> \<not> has_terminal (terminals (setActiveTerminal m i)) i
     \<and> terminals (setActiveTerminal m i) =
         (if truthy (activeTerminalId m)
          then modify_terminal (the (activeTerminalId m)) (\<lambda>t. t\<lparr>isActive := False\<rparr>) (terminals m)
          else terminals m)
     \<and> ((\<forall>t \<in> set (terminals m). isActive t \<longrightarrow> truthy (activeTerminalId m) \<and> activeTerminalId m = Some (tid t)) \<longrightarrow>
          (\<forall>t \<in> set (terminals (setActiveTerminal m i)). \<not> isActive t))"
proof (intro impI conjI)
  assume a: "\<not> has_terminal (terminals m) i"
  show "activeTerminalId (setActiveTerminal m i) = Some i" by simp
  show "\<not> has_terminal (terminals (setActiveTerminal m i)) i" using a by simp
  show eq: "terminals (setActiveTerminal m i) =
         (if truthy (activeTerminalId m)
          then modify_terminal (the (activeTerminalId m)) (\<lambda>t. t\<lparr>isActive := False\<rparr>) (terminals m)
          else terminals m)"
  proof -
    have "\<not> has_terminal (if truthy (activeTerminalId m)
          then modify_terminal (the (activeTerminalId m)) (\<lambda>t. t\<lparr>isActive := False\<rparr>) (terminals m)
          else terminals m) i"
      using a by simp
    then show ?thesis
      unfolding terminals_setActiveTerminal by (rule modify_terminal_absent)
  qed
  assume b: "\<forall>t \<in> set (terminals m). isActive t \<longrightarrow> truthy (activeTerminalId m) \<and> activeTerminalId m = Some (tid t)"
  show "\<forall>t \<in> set (terminals (setActiveTerminal m i)). \<not> isActive t"
  proof
    fix u
    assume u: "u \<in> set (terminals (setActiveTerminal m i))"
    show "\<not> isActive u"
    proof (cases "truthy (activeTerminalId m)")
      case True
      with u eq obtain t where t: "t \<in> set (terminals m)"
        "u = (if tid t = the (activeTerminalId m) then t\<lparr>isActive := False\<rparr> else t)"
        by (auto simp: modify_terminal_def)
      show ?thesis
      proof (cases "tid t = the (activeTerminalId m)")
        case True
        with t show ?thesis by simp
      next
        case False
        with b t have "\<not> isActive t" by (metis option.sel)
        with False t show ?thesis by simp
      qed
    next
      case False
      with u eq have "u \<in> set (terminals m)" by simp
      with b False show ?thesis by blast
    qed
  qed
qed

theorem C10_unknown_id_witness:
  "\<not> has_terminal (terminals (store one_terminal)) ''term-7''
   \<and> activeTerminalId (setActiveTerminal (store one_terminal) ''term-7'') = Some ''term-7''
   \<and> \<not> has_terminal (terminals (setActiveTerminal (store one_terminal) ''term-7'')) ''term-7''
   \<and> \<not> list_ex isActive (terminals (setActiveTerminal (store one_terminal) ''term-7''))"
proof -
  have a: "\<not> has_terminal (terminals (store one_terminal)) ''term-7''"
    by code_simp
  have b: "\<forall>t \<in> set (terminals (store one_terminal)).
             isActive t \<longrightarrow>
             truthy (activeTerminalId (store one_terminal))
             \<and> activeTerminalId (store one_terminal) = Some (tid t)"
    by code_simp
  show ?thesis
    unfolding list_ex_iff
    using a b
      C10_unknown_id_becomes_active_pointer [where m = "store one_terminal" and i = "''term-7''"]
    by blast
qed

text \<open>
  The claim as it is written fails where another scope holds an active terminal: after
  \<^verbatim>\<open>setActiveTerminal\<close> with the unknown id \<^verbatim>\<open>term-9\<close> the first terminal is still active.
\<close>

theorem C10_still_active_counterexample:
  "\<not> has_terminal (terminals (store two_scopes)) ''term-9''
   \<and> activeTerminalId (setActiveTerminal (store two_scopes) ''term-9'') = Some ''term-9''
   \<and> map tid (terminals (setActiveTerminal (store two_scopes) ''term-9''))
       = [''term-1'', ''term-2'']
   \<and> map isActive (terminals (setActiveTerminal (store two_scopes) ''term-9''))
       = [True, False]"
  by code_simp

section \<open>Restoring with a stale active id\<close>

lemma setCurrentProject_leaveProject:
  "setCurrentProject m p save_ok restore_ok
     = notifyStateChange (restoreProjectSession (leaveProject m p save_ok) p restore_ok)"
  by (simp add: setCurrentProject_def leaveProject_def Let_def)

lemma hd_sort_key_least:
  assumes "xs \<noteq> []" "x \<in> set xs"
  shows "f (hd (sort_key f xs)) \<le> f x"
proof -
  have ne: "sort_key f xs \<noteq> []" using assms(1) by (metis length_sort length_0_conv)
  then obtain y ys where ys: "sort_key f xs = y # ys" by (cases "sort_key f xs") auto
  have "sorted (map f (sort_key f xs))" by (rule sorted_sort_key)
  with ys have "\<forall>z \<in> set ys. f y \<le> f z" by simp
  moreover have "x \<in> set (y # ys)" using assms(2) ys by (metis set_sort)
  ultimately show ?thesis using ys by auto
qed

lemma hd_getTerminalsByProject:
  assumes "getTerminalsByProject m p \<noteq> []"
  shows "hd (getTerminalsByProject m p) \<in> set (terminals m)"
    and "projectPath (hd (getTerminalsByProject m p)) = p"
    and "\<forall>u \<in> set (terminals m). projectPath u = p \<longrightarrow>
           createdAt (hd (getTerminalsByProject m p)) \<le> createdAt u"
proof -
  let ?xs = "filter (\<lambda>t. projectPath t = p) (terminals m)"
  have "hd (getTerminalsByProject m p) \<in> set (getTerminalsByProject m p)"
    using assms by simp
  then have mem: "hd (getTerminalsByProject m p) \<in> set ?xs"
    by (simp add: getTerminalsByProject_def)
  then show "hd (getTerminalsByProject m p) \<in> set (terminals m)"
    and "projectPath (hd (getTerminalsByProject m p)) = p" by simp_all
  have ne: "?xs \<noteq> []" using mem by (metis empty_iff list.set(1))
  show "\<forall>u \<in> set (terminals m). projectPath u = p \<longrightarrow>
           createdAt (hd (getTerminalsByProject m p)) \<le> createdAt u"
    unfolding getTerminalsByProject_def
    using hd_sort_key_least [OF ne, where f = createdAt] by simp
qed

lemma restoreFallback_result:
  "if p \<in> projectPath ` set (terminals m) then oldestActive (restoreFallback m p) p
   else activeTerminalId (restoreFallback m p) = None"
proof (cases "getTerminalsByProject m p = []")
  case True
  then have "p \<notin> projectPath ` set (terminals m)"
    by (simp add: getTerminalsByProject_Nil_iff)
  with True show ?thesis by (simp add: restoreFallback_def)
next
  case False
  let ?h = "hd (getTerminalsByProject m p)"
  let ?m' = "setActiveTerminal m (tid ?h)"
  let ?g = "activation (activeTerminalId m) (tid ?h)"
  note h = hd_getTerminalsByProject [OF False]
  have r: "restoreFallback m p = ?m'" using False by (simp add: restoreFallback_def)
  have ts: "terminals ?m' = map ?g (terminals m)" by (rule terminals_setActiveTerminal_map)
  have "?g ?h \<in> set (terminals ?m')" using h(1) ts by simp
  moreover have "activeTerminalId ?m' = Some (tid (?g ?h))" by simp
  moreover have "isActive (?g ?h)" by (simp add: activation_def)
  moreover have "projectPath (?g ?h) = p" using h(2) by simp
  moreover have "\<forall>u \<in> set (terminals ?m'). projectPath u = p \<longrightarrow> createdAt (?g ?h) \<le> createdAt u"
    using h(3) ts by auto
  ultimately have "oldestActive ?m' p" unfolding oldestActive_def by blast
  with False r show ?thesis by (simp add: getTerminalsByProject_Nil_iff)
qed

lemma projectPath_restoredView [simp]:
  "projectPath ` set (terminals (restoredView m p sd)) = projectPath ` set (terminals m)"
  by (auto simp: restoredView_def image_iff)

lemma restore_stale:
  assumes "\<not> persistedActiveIsLive m p"
  shows "\<exists>w. restoreProjectSession m p True = restoreFallback w p
             \<and> projectPath ` set (terminals w) = projectPath ` set (terminals m)"
proof (cases "map_of (localStorage m) (sessionKey p)")
  case None
  then show ?thesis by (auto simp: restoreProjectSession_None)
next
  case (Some sd)
  let ?v = "restoredView m p sd"
  have g: "get_terminal (terminals ?v) a
           = map_option (applyName sd (tid ` {t \<in> set (terminals m). projectPath t = p}))
               (get_terminal (terminals m) a)" for a
    by (simp add: restoredView_def get_terminal_map)
  have n: "\<not> (truthy (sd_activeTerminalId sd)
         \<and> (case get_terminal (terminals ?v) (the (sd_activeTerminalId sd)) of
               Some terminal \<Rightarrow> projectPath terminal = p | None \<Rightarrow> False))"
    using assms Some
    by (auto simp: persistedActiveIsLive_def truthy_def g split: option.splits)
  have "restoreProjectSession m p True = restoreFallback ?v p"
    unfolding restoreProjectSession_Some [OF Some] using n by (rule if_not_P)
  then show ?thesis using projectPath_restoredView by blast
qed

lemma restoreProjectSession_stale:
  assumes "\<not> persistedActiveIsLive m p"
  shows "if p \<in> projectPath ` set (terminals m) then oldestActive (restoreProjectSession m p True) p
         else activeTerminalId (restoreProjectSession m p True) = None"
proof -
  from restore_stale [OF assms] obtain w where
    w: "restoreProjectSession m p True = restoreFallback w p"
       "projectPath ` set (terminals w) = projectPath ` set (terminals m)" by blast
  show ?thesis using restoreFallback_result [of p w] w by simp
qed

lemma oldestActive_notifyStateChange [simp]:
  "oldestActive (notifyStateChange m) p = oldestActive m p"
  by (simp add: oldestActive_def)

lemma terminals_leaveProject [simp]: "terminals (leaveProject m p save_ok) = terminals m"
  by (simp add: leaveProject_def)




section \<open>The snapshots an operation hands to the callback\<close>

lemma current_snapshot_notifyStateChange [simp]:
  "current_snapshot (notifyStateChange m) = current_snapshot m"
  by (simp add: current_snapshot_def getTerminalStates_def)

lemma notified_notifyStateChange:
  "notified (notifyStateChange m)
     = (if onStateChange m then notified m @ [current_snapshot m] else notified m)"
  by (simp add: notifyStateChange_def)

lemma notified_setActiveTerminal:
  "notified (setActiveTerminal m i)
     = (if onStateChange m then notified m @ [current_snapshot (setActiveTerminal m i)]
        else notified m)"
  by (simp add: setActiveTerminal_def Let_def notified_notifyStateChange)

lemma notified_restoreFallback:
  "notified (restoreFallback m p)
     = (if onStateChange m \<and> p \<in> projectPath ` set (terminals m)
        then notified m @ [current_snapshot (restoreFallback m p)] else notified m)"
proof (cases "getTerminalsByProject m p = []")
  case True
  then have "p \<notin> projectPath ` set (terminals m)" by (simp add: getTerminalsByProject_Nil_iff)
  with True show ?thesis by (simp add: restoreFallback_def)
next
  case False
  then have "p \<in> projectPath ` set (terminals m)" by (simp add: getTerminalsByProject_Nil_iff)
  with False show ?thesis by (simp add: restoreFallback_def notified_setActiveTerminal)
qed

lemma notified_restoreProjectSession_readable:
  "notified (restoreProjectSession m p True)
     = (if onStateChange m \<and> p \<in> projectPath ` set (terminals m)
        then notified m @ [current_snapshot (restoreProjectSession m p True)] else notified m)"
proof (cases "map_of (localStorage m) (sessionKey p)")
  case None
  then show ?thesis by (simp add: restoreProjectSession_None notified_restoreFallback)
next
  case (Some sd)
  let ?v = "restoredView m p sd"
  let ?a = "the (sd_activeTerminalId sd)"
  show ?thesis
  proof (cases "truthy (sd_activeTerminalId sd)
         \<and> (case get_terminal (terminals ?v) ?a of
               Some terminal \<Rightarrow> projectPath terminal = p | None \<Rightarrow> False)")
    case True
    then obtain t where "get_terminal (terminals ?v) ?a = Some t" "projectPath t = p"
      by (auto split: option.splits)
    then have "p \<in> projectPath ` set (terminals ?v)"
      using get_terminal_SomeD by blast
    then have "p \<in> projectPath ` set (terminals m)" by simp
    moreover have "restoreProjectSession m p True = setActiveTerminal ?v ?a"
      unfolding restoreProjectSession_Some [OF Some] using True by (rule if_P)
    ultimately show ?thesis by (simp add: notified_setActiveTerminal)
  next
    case False
    have "restoreProjectSession m p True = restoreFallback ?v p"
      unfolding restoreProjectSession_Some [OF Some] using False by (rule if_not_P)
    then show ?thesis by (simp add: notified_restoreFallback)
  qed
qed

lemma notified_restoreProjectSession:
  "notified (restoreProjectSession m p ok)
     = (if ok \<and> onStateChange m \<and> p \<in> projectPath ` set (terminals m)
        then notified m @ [current_snapshot (restoreProjectSession m p ok)] else notified m)"
  by (cases ok)
     (simp_all add: notified_restoreProjectSession_readable restoreProjectSession_failed)

lemma onStateChange_restoreProjectSession [simp]:
  "onStateChange (restoreProjectSession m p ok) = onStateChange m"
  by (cases ok; cases "map_of (localStorage m) (sessionKey p)")
     (simp_all add: restoreProjectSession_None restoreProjectSession_Some
        restoreProjectSession_failed)

lemma onStateChange_leaveProject [simp]:
  "onStateChange (leaveProject m p ok) = onStateChange m"
  and notified_leaveProject [simp]: "notified (leaveProject m p ok) = notified m"
  and activeTerminalId_leaveProject [simp]:
    "activeTerminalId (leaveProject m p ok) = activeTerminalId m"
  by (simp_all add: leaveProject_def)

lemma notified_setCurrentProject:
  assumes "onStateChange m"
  shows "notified (setCurrentProject m p save_ok restore_ok)
     = notified m @ replicate
         (if restore_ok \<and> p \<in> projectPath ` set (terminals m) then 2 else 1)
         (current_snapshot (setCurrentProject m p save_ok restore_ok))"
  using assms
  by (simp add: setCurrentProject_leaveProject notified_notifyStateChange
      notified_restoreProjectSession numeral_2_eq_2)

lemma notified_closeTerminal:
  assumes "onStateChange m"
  shows "notified (closeTerminal m i)
     = notified m @ replicate
         (if \<not> has_terminal (terminals m) i then 0
          else if activeTerminalId m = Some i \<and> delete_terminal (terminals m) i \<noteq> []
                  \<and> tid (last (delete_terminal (terminals m) i)) \<noteq> [] then 2
          else 1)
         (current_snapshot (closeTerminal m i))"
  using assms
  by (auto simp: closeTerminal_def Let_def notified_notifyStateChange notified_setActiveTerminal
      truthy_def last_map numeral_2_eq_2)

lemma length_terminals_setActiveTerminal [simp]:
  "length (terminals (setActiveTerminal m i)) = length (terminals m)"
  by (simp add: terminals_setActiveTerminal_map)

lemma initializeTerminal_unfold:
  "initializeTerminal m i options now =
     (let m2 = m\<lparr>terminalCounter := (if truthy (opt_name options) then terminalCounter m
                                      else terminalCounter m + 1),
                  terminals := set_terminal (terminals m)
                    \<lparr>tid = i,
                     name = (if truthy (opt_name options) then the (opt_name options)
                             else ''Terminal '' @ string_of_nat (terminalCounter m + 1)),
                     customName = None, isActive = False, createdAt = now,
                     projectPath = (case opt_projectPath options of
                                      Some pp \<Rightarrow> pp | None \<Rightarrow> currentProjectPath m)\<rparr>\<rparr>
      in notifyStateChange
           (if length (terminals m2) = 1 \<or> \<not> truthy (activeTerminalId m)
            then setActiveTerminal m2 i else m2))"
  by (cases "opt_projectPath options") (simp_all add: initializeTerminal_def Let_def)

lemma notified_initializeTerminal:
  assumes "onStateChange m"
  shows "notified (initializeTerminal m i options now)
     = notified m @ replicate
         (if length (terminals (initializeTerminal m i options now)) = 1
             \<or> \<not> truthy (activeTerminalId m) then 2 else 1)
         (current_snapshot (initializeTerminal m i options now))"
  using assms
  by (simp add: initializeTerminal_unfold Let_def notified_notifyStateChange
      notified_setActiveTerminal numeral_2_eq_2)

lemma notified_renameTerminal:
  assumes "onStateChange m"
  shows "notified (renameTerminal m i n)
     = notified m @ replicate (if has_terminal (terminals m) i then 1 else 0)
                      (current_snapshot (renameTerminal m i n))"
  using assms by (simp add: renameTerminal_def notified_notifyStateChange)

lemma onStateChange_initializeTerminal [simp]:
  "onStateChange (initializeTerminal m i options now) = onStateChange m"
  by (simp add: initializeTerminal_unfold Let_def)

lemma length_notified_initializeTerminal:
  assumes "onStateChange m"
  shows "Suc (length (notified m)) \<le> length (notified (initializeTerminal m i options now))"
    and "length (notified (initializeTerminal m i options now)) \<le> length (notified m) + 2"
  using assms by (simp_all add: notified_initializeTerminal)

lemma length_notified_initializeAll:
  assumes "onStateChange m"
  shows "length (notified m) + length handlers
           \<le> length (notified (initializeAll m i handlers clock))
         \<and> length (notified (initializeAll m i handlers clock))
           \<le> length (notified m) + 2 * length handlers"
  using assms
proof (induction handlers arbitrary: m clock)
  case Nil
  then show ?case by simp
next
  case (Cons h hs)
  let ?m = "initializeTerminal m i h (case clock of [] \<Rightarrow> 0 | now # _ \<Rightarrow> now)"
  have o: "onStateChange ?m" using Cons.prems by simp
  from Cons.IH [OF o, of "tl clock"]
    length_notified_initializeTerminal [OF Cons.prems, of i h
      "case clock of [] \<Rightarrow> 0 | now # _ \<Rightarrow> now"]
  show ?case by simp
qed

section \<open>Terminal ids\<close>

lemma digit_char_inj:
  assumes "a < 10" "b < 10" "digit_char a = digit_char b"
  shows "a = b"
proof -
  have "\<forall>a < 10. \<forall>b < 10. digit_char a = digit_char b \<longrightarrow> a = (b::nat)"
    unfolding digit_char_def by (simp add: All_less_Suc numeral_eq_Suc nth_Cons')
  with assms show ?thesis by blast
qed

lemma string_of_nat_nonempty: "string_of_nat n \<noteq> []"
  by (subst string_of_nat.simps) simp

lemma length_string_of_nat_ge10: "10 \<le> n \<Longrightarrow> 2 \<le> length (string_of_nat n)"
proof -
  assume "10 \<le> n"
  then have "string_of_nat n = string_of_nat (n div 10) @ [digit_char (n mod 10)]"
    by (subst string_of_nat.simps) simp
  moreover have "1 \<le> length (string_of_nat (n div 10))"
    using string_of_nat_nonempty [of "n div 10"] by (cases "string_of_nat (n div 10)") auto
  ultimately show ?thesis by simp
qed

lemma string_of_nat_inj: "string_of_nat a = string_of_nat b \<Longrightarrow> a = b"
proof (induction a arbitrary: b rule: string_of_nat.induct)
  case (1 n)
  show ?case
  proof (cases "n < 10")
    case True
    then have n: "string_of_nat n = [digit_char n]" by (subst string_of_nat.simps) simp
    show ?thesis
    proof (cases "b < 10")
      case b: True
      then have "string_of_nat b = [digit_char b]" by (subst string_of_nat.simps) simp
      with n "1.prems" have "digit_char n = digit_char b" by simp
      with True b show ?thesis by (rule digit_char_inj)
    next
      case False
      then have "2 \<le> length (string_of_nat b)" by (simp add: length_string_of_nat_ge10)
      with n "1.prems" show ?thesis by simp
    qed
  next
    case False
    then have n: "string_of_nat n = string_of_nat (n div 10) @ [digit_char (n mod 10)]"
      by (subst string_of_nat.simps) simp
    show ?thesis
    proof (cases "b < 10")
      case True
      then have "string_of_nat b = [digit_char b]" by (subst string_of_nat.simps) simp
      moreover have "2 \<le> length (string_of_nat n)" using False
        by (simp add: length_string_of_nat_ge10)
      ultimately show ?thesis using "1.prems" by simp
    next
      case b: False
      then have "string_of_nat b = string_of_nat (b div 10) @ [digit_char (b mod 10)]"
        by (subst string_of_nat.simps) simp
      with n "1.prems" have e: "string_of_nat (n div 10) = string_of_nat (b div 10)"
        "digit_char (n mod 10) = digit_char (b mod 10)" by simp_all
      from "1.IH" [OF False e(1)] have d: "n div 10 = b div 10" .
      have "n mod 10 = b mod 10" using e(2) by (intro digit_char_inj) simp_all
      with d show ?thesis by (metis div_mult_mod_eq)
    qed
  qed
qed

lemma issued_ids_mono: "n \<le> n' \<Longrightarrow> set (issued_ids n) \<subseteq> set (issued_ids n')"
  by (auto simp: issued_ids_def)

lemma next_id_fresh: "''term-'' @ string_of_nat (Suc n) \<notin> set (issued_ids n)"
  by (auto simp: issued_ids_def dest: string_of_nat_inj)

lemma next_id_issued: "''term-'' @ string_of_nat (Suc n) \<in> set (issued_ids (Suc n))"
  by (auto simp: issued_ids_def)

lemma issued_ids_nonempty: "[] \<notin> set (issued_ids n)"
  by (auto simp: issued_ids_def)

lemma map_tid_delete_terminal:
  "set (map tid (delete_terminal ts i)) \<subseteq> set (map tid ts)"
  by (auto simp: delete_terminal_def)

lemma map_tid_closeTerminal:
  "set (map tid (terminals (closeTerminal m i))) \<subseteq> set (map tid (terminals m))"
proof -
  have "map tid (terminals (closeTerminal m i)) = map tid (terminals m)
        \<or> map tid (terminals (closeTerminal m i)) = map tid (delete_terminal (terminals m) i)"
    by (simp add: closeTerminal_def Let_def)
  then show ?thesis
  proof
    assume h: "map tid (terminals (closeTerminal m i)) = map tid (terminals m)"
    show ?thesis unfolding h by (rule subset_refl)
  next
    assume h: "map tid (terminals (closeTerminal m i)) = map tid (delete_terminal (terminals m) i)"
    show ?thesis unfolding h by (rule map_tid_delete_terminal)
  qed
qed

lemma map_tid_restoredView [simp]:
  "map tid (terminals (restoredView m p sd)) = map tid (terminals m)"
  by (simp add: restoredView_def)

lemma map_tid_restoreFallback [simp]:
  "map tid (terminals (restoreFallback m p)) = map tid (terminals m)"
  by (simp add: restoreFallback_def Let_def)

lemma map_tid_restoreProjectSession [simp]:
  "map tid (terminals (restoreProjectSession m p ok)) = map tid (terminals m)"
  by (cases ok; cases "map_of (localStorage m) (sessionKey p)")
     (simp_all add: restoreProjectSession_None restoreProjectSession_Some
        restoreProjectSession_failed)

lemma map_tid_setCurrentProject [simp]:
  "map tid (terminals (setCurrentProject m p save_ok restore_ok)) = map tid (terminals m)"
  by (simp add: setCurrentProject_leaveProject)

lemma map_tid_renameTerminal [simp]:
  "map tid (terminals (renameTerminal m i n)) = map tid (terminals m)"
  by (simp add: renameTerminal_def map_tid_modify_terminal)

lemma terminals_setViewMode [simp]: "terminals (setViewMode m v) = terminals m"
  and terminals_setGridLayout [simp]: "terminals (setGridLayout m g) = terminals m"
  and activeTerminalId_setViewMode [simp]: "activeTerminalId (setViewMode m v) = activeTerminalId m"
  and activeTerminalId_setGridLayout [simp]:
    "activeTerminalId (setGridLayout m g) = activeTerminalId m"
  by (simp_all add: setViewMode_def setGridLayout_def)

lemma map_tid_set_terminal:
  "set (map tid (set_terminal ts t)) = insert (tid t) (set (map tid ts))"
  by (auto simp: set_terminal_def has_terminal_iff)

lemma map_tid_initializeTerminal:
  "set (map tid (terminals (initializeTerminal m i options now)))
     = insert i (set (map tid (terminals m)))"
proof -
  have "set (map tid (terminals (initializeTerminal m i options now)))
        = set (map tid (set_terminal (terminals m)
            \<lparr>tid = i,
             name = (if truthy (opt_name options) then the (opt_name options)
                     else ''Terminal '' @ string_of_nat (terminalCounter m + 1)),
             customName = None, isActive = False, createdAt = now,
             projectPath = (case opt_projectPath options of
                              Some pp \<Rightarrow> pp | None \<Rightarrow> currentProjectPath m)\<rparr>))"
    by (simp add: initializeTerminal_unfold Let_def del: set_map)
  then show ?thesis unfolding map_tid_set_terminal by simp
qed

lemma counter_pty_ops [simp]:
  "pty_terminalCounter (pty_destroyTerminal r i) = pty_terminalCounter r"
  "pty_terminalCounter (pty_onExit r i) = pty_terminalCounter r"
  "pty_terminalCounter (pty_writeToTerminal r i d) = pty_terminalCounter r"
  "pty_terminalCounter (pty_resizeTerminal r i c w) = pty_terminalCounter r"
  by (simp_all add: pty_destroyTerminal_def pty_onExit_def pty_writeToTerminal_def
      pty_resizeTerminal_def split: option.split)

lemma map_tid_initializeAll:
  "set (map tid (terminals (initializeAll m i handlers clock)))
     = (if handlers = [] then set (map tid (terminals m))
        else insert i (set (map tid (terminals m))))"
proof (induction handlers arbitrary: m clock)
  case Nil
  show ?case by simp
next
  case (Cons h hs)
  show ?case
    unfolding initializeAll.simps Cons.IH map_tid_initializeTerminal by simp
qed

lemma created_ids_append: "created_ids (a @ b) = created_ids a @ created_ids b"
  by (induction a rule: created_ids.induct) simp_all

lemma ipc_terminal_create_cases:
  "ipc_terminal_create r wd pp spawn_ok =
     (if length (ptyInstances r) \<ge> MAX_TERMINALS then (r, Failure LimitReached)
      else if \<not> spawn_ok
      then (r\<lparr>pty_terminalCounter := Suc (pty_terminalCounter r)\<rparr>, Failure SpawnFailed)
      else (fst (pty_createTerminal r wd pp True),
            Success (''term-'' @ string_of_nat (Suc (pty_terminalCounter r)))))"
  by (simp add: ipc_terminal_create_def pty_createTerminal_def Let_def)

lemma counter_pty_createTerminal:
  "pty_terminalCounter (fst (pty_createTerminal r wd pp True))
     = (if length (ptyInstances r) \<ge> MAX_TERMINALS then pty_terminalCounter r
        else Suc (pty_terminalCounter r))"
  by (simp add: pty_createTerminal_def Let_def)

lemma createTerminal_cases:
  "createTerminal s options =
     (if length (terminals (store s)) \<ge> maxTerminals then (s, Null)
      else (s\<lparr>listeners := listeners s @ [created_options (store s) options],
              to_main := to_main s
                @ [TERMINAL_CREATE (opt_cwd (created_options (store s) options))
                     (the (opt_projectPath (created_options (store s) options)))]\<rparr>,
            Pending))"
  by (simp add: createTerminal_def created_options_def Let_def)

lemma createTerminal_fields [simp]:
  "store (fst (createTerminal s options)) = store s"
  "reg (fst (createTerminal s options)) = reg s"
  "to_renderer (fst (createTerminal s options)) = to_renderer s"
  by (simp_all add: createTerminal_cases)

lemma main_receive_fields [simp]:
  "store (main_receive s spawn_ok) = store s"
  "listeners (main_receive s spawn_ok) = listeners s"
  by (simp_all add: main_receive_def split: list.split main_msg.split prod.split)

lemma main_receive_create:
  assumes "to_main s = TERMINAL_CREATE wd pp # rest"
  shows "main_receive s spawn_ok =
     s\<lparr>to_main := rest,
       reg := fst (ipc_terminal_create (reg s) wd pp spawn_ok),
       to_renderer := to_renderer s
         @ [TERMINAL_CREATED (snd (ipc_terminal_create (reg s) wd pp spawn_ok))]\<rparr>"
  using assms by (simp add: main_receive_def split: prod.split)

lemma renderer_receive_created:
  assumes "to_renderer s = TERMINAL_CREATED (Success i) # rest"
  shows "renderer_receive s clock =
     s\<lparr>to_renderer := rest, listeners := [],
       store := initializeAll (store s) i (listeners s) clock\<rparr>"
  using assms by (simp add: renderer_receive_def onTerminalCreated_def)

lemma renderer_receive_failed:
  assumes "to_renderer s = TERMINAL_CREATED (Failure e) # rest"
  shows "renderer_receive s clock = s\<lparr>to_renderer := rest, listeners := []\<rparr>"
  using assms by (simp add: renderer_receive_def onTerminalCreated_def)

lemma renderer_receive_destroyed:
  assumes "to_renderer s = TERMINAL_DESTROYED i # rest"
  shows "renderer_receive s clock =
     (if has_terminal (terminals (store s)) i
      then s\<lparr>to_renderer := rest, store := closeTerminal (store s) i,
             to_main := to_main s @ [TERMINAL_DESTROY i]\<rparr>
      else s\<lparr>to_renderer := rest\<rparr>)"
  using assms by (simp add: renderer_receive_def onTerminalDestroyed_def)

lemma ids_issued_main_receive:
  assumes a: "ids_issued s"
  shows "ids_issued (main_receive s spawn_ok)"
proof (cases "to_main s")
  case Nil
  then show ?thesis using a by (simp add: main_receive_def)
next
  case (Cons msg rest)
  let ?n = "pty_terminalCounter (reg s)"
  let ?i = "''term-'' @ string_of_nat (Suc ?n)"
  have m: "set (issued_ids ?n) \<subseteq> set (issued_ids (Suc ?n))" by (rule issued_ids_mono) simp
  show ?thesis
  proof (cases msg)
    case (TERMINAL_CREATE wd pp)
    note r = main_receive_create [where spawn_ok = spawn_ok, OF Cons [unfolded TERMINAL_CREATE]]
    show ?thesis
    proof (cases "length (ptyInstances (reg s)) \<ge> MAX_TERMINALS")
      case True
      then show ?thesis using a
        unfolding r ipc_terminal_create_cases ids_issued_def
        by (simp add: created_ids_append del: set_map)
    next
      case lim: False
      show ?thesis
      proof (cases spawn_ok)
        case False
        then show ?thesis using a m lim
          unfolding r ipc_terminal_create_cases ids_issued_def
          by (auto simp: created_ids_append simp del: set_map)
      next
        case True
        have f1: "?i \<notin> set (map tid (terminals (store s)))"
          and f2: "?i \<notin> set (created_ids (to_renderer s))"
          using a next_id_fresh [of ?n] unfolding ids_issued_def by blast+
        show ?thesis using a m lim True f1 f2 next_id_issued [of ?n]
          unfolding r ipc_terminal_create_cases ids_issued_def
          by (auto simp: created_ids_append counter_pty_createTerminal simp del: set_map)
      qed
    qed
  next
    case (TERMINAL_DESTROY i)
    then show ?thesis using a Cons by (simp add: main_receive_def ids_issued_def del: set_map)
  next
    case (TERMINAL_INPUT_ID i d)
    then show ?thesis using a Cons by (simp add: main_receive_def ids_issued_def del: set_map)
  next
    case (TERMINAL_RESIZE_ID i c w)
    then show ?thesis using a Cons by (simp add: main_receive_def ids_issued_def del: set_map)
  qed
qed

lemma ids_issued_renderer_receive:
  assumes a: "ids_issued s"
  shows "ids_issued (renderer_receive s clock)"
proof (cases "to_renderer s")
  case Nil
  then show ?thesis using a by (simp add: renderer_receive_def)
next
  case (Cons msg rest)
  show ?thesis
  proof (cases msg)
    case (TERMINAL_CREATED response)
    show ?thesis
    proof (cases response)
      case (Success i)
      note r = renderer_receive_created [where clock = clock,
          OF Cons [unfolded TERMINAL_CREATED Success]]
      show ?thesis using a
        unfolding r ids_issued_def Cons TERMINAL_CREATED Success
        by (auto simp: map_tid_initializeAll simp del: set_map)
    next
      case (Failure e)
      note r = renderer_receive_failed [where clock = clock,
          OF Cons [unfolded TERMINAL_CREATED Failure]]
      show ?thesis using a
        unfolding r ids_issued_def Cons TERMINAL_CREATED Failure
        by (simp del: set_map)
    qed
  next
    case (TERMINAL_DESTROYED i)
    note r = renderer_receive_destroyed [where clock = clock,
        OF Cons [unfolded TERMINAL_DESTROYED]]
    show ?thesis using a map_tid_closeTerminal [of "store s" i]
      unfolding r ids_issued_def Cons TERMINAL_DESTROYED
      by (auto simp del: set_map)
  qed
qed

lemma ids_issued_step: "ids_issued s \<Longrightarrow> ids_issued (step s e)"
proof (cases e)
  case (CreateTerminal options)
  assume "ids_issued s"
  then show ?thesis unfolding CreateTerminal by (simp add: ids_issued_def del: set_map)
next
  case (MainReceive spawn_ok)
  assume "ids_issued s"
  then show ?thesis unfolding MainReceive by (simp add: ids_issued_main_receive)
next
  case (RendererReceive clock)
  assume "ids_issued s"
  then show ?thesis unfolding RendererReceive by (simp add: ids_issued_renderer_receive)
next
  case (CloseTerminal i)
  assume "ids_issued s"
  then show ?thesis
    using map_tid_closeTerminal [of "store s" i]
    unfolding CloseTerminal ids_issued_def by (auto simp del: set_map)
next
  case (ProcessExit i)
  assume "ids_issued s"
  then show ?thesis
    unfolding ProcessExit ids_issued_def by (simp add: created_ids_append del: set_map)
qed (simp_all add: ids_issued_def del: set_map)

section \<open>The active pointer\<close>

lemma pointer_ok_setActiveTerminal:
  "has_terminal (terminals m) i \<Longrightarrow> pointer_ok (setActiveTerminal m i)"
proof -
  assume "has_terminal (terminals m) i"
  then obtain t where t: "t \<in> set (terminals m)" "tid t = i"
    by (auto simp: has_terminal_iff)
  let ?g = "activation (activeTerminalId m) i"
  have "?g t \<in> set (terminals (setActiveTerminal m i))"
    using t(1) by (simp add: terminals_setActiveTerminal_map)
  moreover have "activeTerminalId (setActiveTerminal m i) = Some (tid (?g t))"
    using t(2) by simp
  moreover have "isActive (?g t)" using t(2) by (simp add: activation_def)
  ultimately show ?thesis unfolding pointer_ok_def by blast
qed

lemma pointer_ok_notifyStateChange [simp]:
  "pointer_ok (notifyStateChange m) = pointer_ok m"
  by (simp add: pointer_ok_def)

lemma pointer_ok_restoreFallback: "pointer_ok (restoreFallback m p)"
proof (cases "getTerminalsByProject m p = []")
  case True
  then show ?thesis by (simp add: restoreFallback_def pointer_ok_def)
next
  case False
  from hd_getTerminalsByProject(1) [OF False]
  have "has_terminal (terminals m) (tid (hd (getTerminalsByProject m p)))"
    by (auto simp: has_terminal_iff)
  then show ?thesis using False by (simp add: restoreFallback_def pointer_ok_setActiveTerminal)
qed

lemma pointer_ok_restoreProjectSession_readable: "pointer_ok (restoreProjectSession m p True)"
proof (cases "map_of (localStorage m) (sessionKey p)")
  case None
  then show ?thesis by (simp add: restoreProjectSession_None pointer_ok_restoreFallback)
next
  case (Some sd)
  let ?v = "restoredView m p sd"
  let ?a = "the (sd_activeTerminalId sd)"
  show ?thesis
  proof (cases "truthy (sd_activeTerminalId sd)
         \<and> (case get_terminal (terminals ?v) ?a of
               Some terminal \<Rightarrow> projectPath terminal = p | None \<Rightarrow> False)")
    case True
    then have "has_terminal (terminals ?v) ?a"
      by (auto simp: has_terminal_def split: option.splits)
    moreover have "restoreProjectSession m p True = setActiveTerminal ?v ?a"
      unfolding restoreProjectSession_Some [OF Some] using True by (rule if_P)
    ultimately show ?thesis by (simp add: pointer_ok_setActiveTerminal)
  next
    case False
    have "restoreProjectSession m p True = restoreFallback ?v p"
      unfolding restoreProjectSession_Some [OF Some] using False by (rule if_not_P)
    then show ?thesis by (simp add: pointer_ok_restoreFallback)
  qed
qed

lemma pointer_ok_restoreProjectSession:
  "pointer_ok m \<Longrightarrow> pointer_ok (restoreProjectSession m p ok)"
  by (cases ok)
     (simp_all add: pointer_ok_restoreProjectSession_readable restoreProjectSession_failed)

lemma pointer_ok_leaveProject [simp]: "pointer_ok (leaveProject m p ok) = pointer_ok m"
  by (simp add: pointer_ok_def)

lemma pointer_ok_setCurrentProject:
  "pointer_ok m \<Longrightarrow> pointer_ok (setCurrentProject m p save_ok restore_ok)"
  by (simp add: setCurrentProject_leaveProject pointer_ok_restoreProjectSession)

lemma pointer_ok_map:
  assumes "pointer_ok m" "activeTerminalId m' = activeTerminalId m"
    "terminals m' = map g (terminals m)" "\<And>t. tid (g t) = tid t" "\<And>t. isActive (g t) = isActive t"
  shows "pointer_ok m'"
proof (cases "activeTerminalId m")
  case None
  then show ?thesis using assms(2) by (simp add: pointer_ok_def)
next
  case (Some i)
  with assms(1) obtain t where t: "t \<in> set (terminals m)" "activeTerminalId m = Some (tid t)"
    "isActive t" by (auto simp: pointer_ok_def)
  have "g t \<in> set (terminals m')" using t(1) assms(3) by simp
  moreover have "activeTerminalId m' = Some (tid (g t))" using t(2) assms(2,4) by simp
  moreover have "isActive (g t)" using t(3) assms(5) by simp
  ultimately show ?thesis unfolding pointer_ok_def by blast
qed

lemma pointer_ok_renameTerminal:
  assumes "pointer_ok m" shows "pointer_ok (renameTerminal m i n)"
proof (cases "has_terminal (terminals m) i")
  case True
  show ?thesis
    by (rule pointer_ok_map [OF assms, where g = "\<lambda>t. if tid t = i then t\<lparr>customName := Some n, name := n\<rparr> else t"])
       (simp_all add: renameTerminal_def True modify_terminal_def)
next
  case False
  then show ?thesis using assms by (simp add: renameTerminal_def)
qed

lemma pointer_ok_closeTerminal:
  assumes "pointer_ok m" "[] \<notin> set (map tid (terminals m))"
  shows "pointer_ok (closeTerminal m i)"
proof (cases "has_terminal (terminals m) i")
  case False
  then show ?thesis using assms by (simp add: closeTerminal_absent)
next
  case True
  let ?ts = "delete_terminal (terminals m) i"
  show ?thesis
  proof (cases "activeTerminalId m = Some i")
    case a: True
    show ?thesis
    proof (cases "?ts = []")
      case True
      with a \<open>has_terminal (terminals m) i\<close> show ?thesis
        by (simp add: closeTerminal_def Let_def pointer_ok_def truthy_def)
    next
      case False
      let ?j = "tid (last ?ts)"
      let ?m' = "m\<lparr>terminals := ?ts, activeTerminalId := Some ?j\<rparr>"
      have "last ?ts \<in> set ?ts" using False by simp
      then have j: "has_terminal ?ts ?j" "?j \<in> set (map tid (terminals m))"
        by (auto simp: has_terminal_iff delete_terminal_def)
      with assms(2) have "?j \<noteq> []" by metis
      then have "closeTerminal m i = notifyStateChange (setActiveTerminal ?m' ?j)"
        using a False \<open>has_terminal (terminals m) i\<close>
        by (simp add: closeTerminal_def Let_def truthy_def last_map)
      then show ?thesis using j(1) by (simp add: pointer_ok_setActiveTerminal)
    qed
  next
    case b: False
    then have c: "closeTerminal m i = notifyStateChange (m\<lparr>terminals := ?ts\<rparr>)"
      using True by (simp add: closeTerminal_def Let_def)
    show ?thesis
    proof (cases "activeTerminalId m")
      case None
      then show ?thesis unfolding c by (simp add: pointer_ok_def)
    next
      case (Some k)
      with assms(1) obtain t where t: "t \<in> set (terminals m)" "activeTerminalId m = Some (tid t)"
        "isActive t" by (auto simp: pointer_ok_def)
      with b have "t \<in> set ?ts" by (simp add: delete_terminal_def)
      with t show ?thesis unfolding c pointer_ok_def by auto
    qed
  qed
qed

lemma terminals_initializeTerminal_fresh:
  assumes "\<not> has_terminal (terminals m) i"
  shows "terminals (initializeTerminal m i options now) =
     terminals m @
       [\<lparr>tid = i,
         name = (if truthy (opt_name options) then the (opt_name options)
                 else ''Terminal '' @ string_of_nat (terminalCounter m + 1)),
         customName = None,
         isActive = (terminals m = [] \<or> \<not> truthy (activeTerminalId m)),
         createdAt = now,
         projectPath = (case opt_projectPath options of
                          Some pp \<Rightarrow> pp | None \<Rightarrow> currentProjectPath m)\<rparr>]"
proof -
  have fresh: "\<forall>t \<in> set (terminals m). tid t \<noteq> i"
    using assms by (auto simp: has_terminal_iff)
  have keep: "map (activation prev i) (terminals m) = terminals m" if "\<not> truthy prev" for prev
    using fresh that by (intro map_idI) (simp add: activation_def)
  show ?thesis
    using assms keep [of "activeTerminalId m"]
    by (auto simp: initializeTerminal_unfold Let_def set_terminal_def
        terminals_setActiveTerminal_map activation_def)
qed

lemma activeTerminalId_initializeTerminal:
  "activeTerminalId (initializeTerminal m i options now) =
     (if length (terminals (initializeTerminal m i options now)) = 1
         \<or> \<not> truthy (activeTerminalId m) then Some i else activeTerminalId m)"
  by (simp add: initializeTerminal_unfold Let_def)

lemma pointer_ok_initializeTerminal:
  assumes "pointer_ok m" "\<not> has_terminal (terminals m) i"
  shows "pointer_ok (initializeTerminal m i options now)"
proof (cases "terminals m = [] \<or> \<not> truthy (activeTerminalId m)")
  case True
  then show ?thesis
    unfolding pointer_ok_def activeTerminalId_initializeTerminal
      terminals_initializeTerminal_fresh [OF assms(2)]
    by auto
next
  case False
  then obtain k where k: "activeTerminalId m = Some k" by (auto simp: truthy_def split: option.splits)
  with assms(1) obtain t where t: "t \<in> set (terminals m)" "activeTerminalId m = Some (tid t)"
    "isActive t" by (auto simp: pointer_ok_def)
  with False show ?thesis
    unfolding pointer_ok_def activeTerminalId_initializeTerminal
      terminals_initializeTerminal_fresh [OF assms(2)]
    by auto
qed

section \<open>The limit of nine terminals\<close>

lemma length_of_map_tid: "map tid xs = map tid ys \<Longrightarrow> length xs = length ys"
  by (metis length_map)

lemma length_terminals_closeTerminal:
  "length (terminals (closeTerminal m i)) \<le> length (terminals m)"
proof -
  have "map tid (terminals (closeTerminal m i)) = map tid (terminals m)
        \<or> map tid (terminals (closeTerminal m i)) = map tid (delete_terminal (terminals m) i)"
    by (simp add: closeTerminal_def Let_def)
  then have "length (terminals (closeTerminal m i)) = length (terminals m)
        \<or> length (terminals (closeTerminal m i)) = length (delete_terminal (terminals m) i)"
    using length_of_map_tid by blast
  moreover have "length (delete_terminal (terminals m) i) \<le> length (terminals m)"
    by (simp add: delete_terminal_def)
  ultimately show ?thesis by auto
qed

lemma length_terminals_setCurrentProject [simp]:
  "length (terminals (setCurrentProject m p save_ok restore_ok)) = length (terminals m)"
  by (rule length_of_map_tid) simp

lemma length_terminals_renameTerminal [simp]:
  "length (terminals (renameTerminal m i n)) = length (terminals m)"
  by (rule length_of_map_tid) simp

lemma length_set_terminal:
  "length (set_terminal ts t) = (if has_terminal ts (tid t) then length ts else Suc (length ts))"
  by (simp add: set_terminal_def)

lemma length_terminals_initializeTerminal:
  "length (terminals (initializeTerminal m i options now))
     = (if has_terminal (terminals m) i then length (terminals m)
        else Suc (length (terminals m)))"
proof -
  have "length (terminals (initializeTerminal m i options now))
        = length (set_terminal (terminals m)
            \<lparr>tid = i,
             name = (if truthy (opt_name options) then the (opt_name options)
                     else ''Terminal '' @ string_of_nat (terminalCounter m + 1)),
             customName = None, isActive = False, createdAt = now,
             projectPath = (case opt_projectPath options of
                              Some pp \<Rightarrow> pp | None \<Rightarrow> currentProjectPath m)\<rparr>)"
    by (simp add: initializeTerminal_unfold Let_def)
  then show ?thesis unfolding length_set_terminal by simp
qed

lemma has_terminal_initializeTerminal [simp]:
  "has_terminal (terminals (initializeTerminal m i options now)) i"
  unfolding has_terminal_iff set_map [symmetric] map_tid_initializeTerminal by simp

lemma length_terminals_initializeAll_present:
  "has_terminal (terminals m) i \<Longrightarrow>
   length (terminals (initializeAll m i handlers clock)) = length (terminals m)"
  by (induction handlers arbitrary: m clock) (simp_all add: length_terminals_initializeTerminal)

text \<open>
  However many handlers a reply reaches, the map grows by one entry at most: the handlers
  all write the entry of the same id.
\<close>

lemma length_terminals_initializeAll:
  "length (terminals (initializeAll m i handlers clock)) \<le> Suc (length (terminals m))"
proof (cases handlers)
  case Nil
  then show ?thesis by simp
next
  case (Cons h hs)
  show ?thesis
    unfolding Cons initializeAll.simps
    by (simp add: length_terminals_initializeAll_present length_terminals_initializeTerminal)
qed

lemma room_for_pending_renderer_receive:
  assumes a: "room_for_pending s"
  shows "room_for_pending (renderer_receive s clock)"
proof (cases "to_renderer s")
  case Nil
  then show ?thesis using a by (simp add: renderer_receive_def)
next
  case (Cons msg rest)
  show ?thesis
  proof (cases msg)
    case (TERMINAL_CREATED response)
    show ?thesis
    proof (cases response)
      case (Success i)
      note r = renderer_receive_created [where clock = clock,
          OF Cons [unfolded TERMINAL_CREATED Success]]
      show ?thesis
      proof (cases "listeners s")
        case Nil
        then show ?thesis using a unfolding r room_for_pending_def by simp
      next
        case (Cons h hs)
        with a have "length (terminals (store s)) < maxTerminals"
          by (simp add: room_for_pending_def)
        with length_terminals_initializeAll [of "store s" i "listeners s" clock]
        show ?thesis unfolding r room_for_pending_def by simp
      qed
    next
      case (Failure e)
      note r = renderer_receive_failed [where clock = clock,
          OF Cons [unfolded TERMINAL_CREATED Failure]]
      show ?thesis using a unfolding r room_for_pending_def by simp
    qed
  next
    case (TERMINAL_DESTROYED i)
    note r = renderer_receive_destroyed [where clock = clock,
        OF Cons [unfolded TERMINAL_DESTROYED]]
    show ?thesis using a length_terminals_closeTerminal [of "store s" i]
      unfolding r room_for_pending_def by auto
  qed
qed

lemma room_for_pending_step:
  assumes a: "room_for_pending s"
  shows "room_for_pending (step s e)"
proof (cases e)
  case (CreateTerminal options)
  show ?thesis using a unfolding CreateTerminal step.simps createTerminal_cases
    by (auto simp: room_for_pending_def)
next
  case (MainReceive spawn_ok)
  show ?thesis using a unfolding MainReceive by (simp add: room_for_pending_def)
next
  case (RendererReceive clock)
  show ?thesis using a unfolding RendererReceive
    by (simp add: room_for_pending_renderer_receive)
next
  case (CloseTerminal i)
  show ?thesis
    using a length_terminals_closeTerminal [of "store s" i]
    unfolding CloseTerminal room_for_pending_def by auto
qed (use a in \<open>simp_all add: room_for_pending_def\<close>)

lemma length_update:
  "length (AList.update k v al) = (if k \<in> fst ` set al then length al else Suc (length al))"
  by (induction al) auto

lemma length_ptyInstances_pty_ops:
  "length (ptyInstances (pty_destroyTerminal r i)) \<le> length (ptyInstances r)"
  "length (ptyInstances (pty_onExit r i)) \<le> length (ptyInstances r)"
  "length (ptyInstances (pty_writeToTerminal r i d)) = length (ptyInstances r)"
  "length (ptyInstances (pty_resizeTerminal r i c w)) = length (ptyInstances r)"
  by (auto simp: pty_destroyTerminal_def pty_onExit_def pty_writeToTerminal_def
      pty_resizeTerminal_def length_delete_le length_update map_of_eq_None_iff
      split: option.split)

lemma length_ptyInstances_pty_createTerminal:
  assumes "length (ptyInstances r) \<le> MAX_TERMINALS"
  shows "length (ptyInstances (fst (pty_createTerminal r wd pp ok))) \<le> MAX_TERMINALS"
  using assms by (auto simp: pty_createTerminal_def Let_def length_update)

lemma fst_ipc_terminal_create:
  "fst (ipc_terminal_create r wd pp ok) = fst (pty_createTerminal r wd pp ok)"
  by (simp add: ipc_terminal_create_def split: prod.split sum.split)

lemma reg_main_receive_length:
  assumes a: "length (ptyInstances (reg s)) \<le> MAX_TERMINALS"
  shows "length (ptyInstances (reg (main_receive s spawn_ok))) \<le> MAX_TERMINALS"
proof (cases "to_main s")
  case Nil
  then show ?thesis using a by (simp add: main_receive_def)
next
  case (Cons msg rest)
  show ?thesis
  proof (cases msg)
    case (TERMINAL_CREATE wd pp)
    note r = main_receive_create [where spawn_ok = spawn_ok, OF Cons [unfolded TERMINAL_CREATE]]
    show ?thesis
      unfolding r using length_ptyInstances_pty_createTerminal [OF a]
      by (simp add: fst_ipc_terminal_create)
  next
    case (TERMINAL_DESTROY i)
    then show ?thesis using a Cons length_ptyInstances_pty_ops(1) [of "reg s" i]
      by (simp add: main_receive_def)
  next
    case (TERMINAL_INPUT_ID i d)
    then show ?thesis using a Cons by (simp add: main_receive_def length_ptyInstances_pty_ops)
  next
    case (TERMINAL_RESIZE_ID i c w)
    then show ?thesis using a Cons by (simp add: main_receive_def length_ptyInstances_pty_ops)
  qed
qed

lemma reg_renderer_receive [simp]: "reg (renderer_receive s clock) = reg s"
  by (simp add: renderer_receive_def onTerminalCreated_def onTerminalDestroyed_def
      split: list.split renderer_msg.split reply.split)

lemma reg_step_length:
  assumes "length (ptyInstances (reg s)) \<le> MAX_TERMINALS"
  shows "length (ptyInstances (reg (step s e))) \<le> MAX_TERMINALS"
proof (cases e)
  case (MainReceive spawn_ok)
  show ?thesis using assms unfolding MainReceive by (simp add: reg_main_receive_length)
next
  case (ProcessExit i)
  show ?thesis
    using assms length_ptyInstances_pty_ops(2) [of "reg s" i]
    unfolding ProcessExit by simp
qed (use assms in simp_all)

lemma run_length:
  assumes "room_for_pending s"
    "length (ptyInstances (reg s)) \<le> MAX_TERMINALS"
  shows "room_for_pending (run s evs)
         \<and> length (ptyInstances (reg (run s evs))) \<le> MAX_TERMINALS"
  using assms unfolding run_def
  by (induction evs arbitrary: s) (simp_all add: room_for_pending_step reg_step_length)

lemma createTerminal_at_limit:
  "length (terminals (store s)) \<ge> maxTerminals \<Longrightarrow> createTerminal s options = (s, Null)"
  by (simp add: createTerminal_def)

lemma pty_createTerminal_at_limit:
  "length (ptyInstances r) \<ge> MAX_TERMINALS \<Longrightarrow>
   pty_createTerminal r wd pp spawn_ok = (r, Inl LimitReached)"
  by (simp add: pty_createTerminal_def)

text \<open>
  Claim C1. After any sequence of events from the initial state (calls of
  \<^verbatim>\<open>createTerminal\<close> that overlap or not, messages handled in any interleaving) the
  Terminal Manager holds at most 9 terminals and the PTY Manager at most 9 processes.
  With 9 processes \<^verbatim>\<open>createTerminal\<close> of the PTY Manager throws the limit error and leaves
  the registry as it was; with 9 terminals \<^verbatim>\<open>createTerminal\<close> of the Terminal Manager
  resolves to \<^verbatim>\<open>null\<close> and leaves the whole state as it was: terminals, active pointer,
  view settings, notifications, pending handlers, message queues and registry.
\<close>

theorem C1_at_most_nine:
  "length (terminals (store (run (init home) evs))) \<le> 9
   \<and> length (ptyInstances (reg (run (init home) evs))) \<le> 9
   \<and> (length (ptyInstances r) = 9 \<longrightarrow>
        pty_createTerminal r wd pp spawn_ok = (r, Inl LimitReached))
   \<and> (length (terminals (store s)) = 9 \<longrightarrow>
        createTerminal s options = (s, Null))"
proof -
  have "room_for_pending (init home)"
    "length (ptyInstances (reg (init home))) \<le> MAX_TERMINALS"
    by (simp_all add: init_def constructor_def room_for_pending_def)
  from run_length [OF this, of evs] show ?thesis
    by (simp add: maxTerminals_def MAX_TERMINALS_def createTerminal_at_limit
        pty_createTerminal_at_limit room_for_pending_def)
qed

theorem C1_at_most_nine_witness:
  "length (terminals (store nine_terminals)) = 9
   \<and> length (ptyInstances (reg nine_terminals)) = 9
   \<and> pty_createTerminal (reg nine_terminals) None None True = (reg nine_terminals, Inl LimitReached)
   \<and> createTerminal nine_terminals default_options = (nine_terminals, Null)"
proof -
  have a: "length (terminals (store nine_terminals)) = 9" by code_simp
  have b: "length (ptyInstances (reg nine_terminals)) = 9" by code_simp
  show ?thesis
    using a b
      C1_at_most_nine [where r = "reg nine_terminals" and s = nine_terminals and wd = None
        and pp = None and spawn_ok = True and options = default_options]
    by simp
qed

section \<open>The active pointer over all runs\<close>

lemma ids_issued_fresh:
  "ids_issued s \<Longrightarrow>
   \<not> has_terminal (terminals (store s)) (''term-'' @ string_of_nat (Suc (pty_terminalCounter (reg s))))"
  unfolding ids_issued_def has_terminal_iff set_map [symmetric]
  using next_id_fresh by blast

lemma ids_issued_nonempty: "ids_issued s \<Longrightarrow> [] \<notin> set (map tid (terminals (store s)))"
  unfolding ids_issued_def using issued_ids_nonempty by blast

lemma pointer_ok_onStateChange [simp]:
  "pointer_ok (m\<lparr>onStateChange := b\<rparr>) = pointer_ok m"
  by (simp add: pointer_ok_def)

lemma pointer_ok_setViewMode [simp]: "pointer_ok (setViewMode m v) = pointer_ok m"
  and pointer_ok_setGridLayout [simp]: "pointer_ok (setGridLayout m g) = pointer_ok m"
  by (simp_all add: pointer_ok_def)

lemma ids_issued_created_fresh:
  assumes "ids_issued s" "to_renderer s = TERMINAL_CREATED (Success i) # q"
  shows "\<not> has_terminal (terminals (store s)) i"
  using assms unfolding ids_issued_def has_terminal_iff set_map [symmetric] by auto

lemma pointer_ok_renderer_receive:
  assumes "ids_issued s" "pointer_ok (store s)" "length (listeners s) \<le> 1"
  shows "pointer_ok (store (renderer_receive s clock))"
proof (cases "to_renderer s")
  case Nil
  then show ?thesis using assms(2) by (simp add: renderer_receive_def)
next
  case (Cons msg rest)
  show ?thesis
  proof (cases msg)
    case (TERMINAL_CREATED response)
    show ?thesis
    proof (cases response)
      case (Success i)
      note q = Cons [unfolded TERMINAL_CREATED Success]
      note r = renderer_receive_created [where clock = clock, OF q]
      show ?thesis
      proof (cases "listeners s")
        case Nil
        then show ?thesis using assms(2) unfolding r by simp
      next
        case (Cons h hs)
        with assms(3) have hs: "listeners s = [h]" by simp
        show ?thesis
          unfolding r hs
          using pointer_ok_initializeTerminal [OF assms(2) ids_issued_created_fresh [OF assms(1) q]]
          by simp
      qed
    next
      case (Failure e)
      note r = renderer_receive_failed [where clock = clock,
          OF Cons [unfolded TERMINAL_CREATED Failure]]
      show ?thesis using assms(2) unfolding r by simp
    qed
  next
    case (TERMINAL_DESTROYED i)
    note r = renderer_receive_destroyed [where clock = clock,
        OF Cons [unfolded TERMINAL_DESTROYED]]
    show ?thesis
      using assms(2) pointer_ok_closeTerminal [OF assms(2) ids_issued_nonempty [OF assms(1)]]
      unfolding r by simp
  qed
qed

lemma pointer_ok_step:
  assumes "ids_issued s" "pointer_ok (store s)" "length (listeners s) \<le> 1" "event_ok s e"
  shows "pointer_ok (store (step s e))"
proof (cases e)
  case (RendererReceive clock)
  show ?thesis
    unfolding RendererReceive step.simps
    by (rule pointer_ok_renderer_receive) (rule assms)+
next
  case (CloseTerminal i)
  show ?thesis
    using pointer_ok_closeTerminal [OF assms(2) ids_issued_nonempty [OF assms(1)]]
    unfolding CloseTerminal by simp
next
  case (SetCurrentProject p save_ok restore_ok)
  show ?thesis using assms(2) unfolding SetCurrentProject
    by (simp add: pointer_ok_setCurrentProject)
next
  case (SetActiveTerminal i)
  show ?thesis using assms(4) unfolding SetActiveTerminal
    by (simp add: pointer_ok_setActiveTerminal)
next
  case (RenameTerminal i n)
  show ?thesis using assms(2) unfolding RenameTerminal by (simp add: pointer_ok_renameTerminal)
qed (use assms(2) in simp_all)

lemma listeners_renderer_receive:
  "length (listeners (renderer_receive s clock)) \<le> length (listeners s)"
  by (simp add: renderer_receive_def onTerminalCreated_def onTerminalDestroyed_def
      split: list.split renderer_msg.split reply.split)

lemma listeners_step:
  assumes "length (listeners s) \<le> 1" "event_ok s e"
  shows "length (listeners (step s e)) \<le> 1"
proof (cases e)
  case (CreateTerminal options)
  show ?thesis using assms(2) unfolding CreateTerminal step.simps createTerminal_cases by simp
next
  case (RendererReceive clock)
  show ?thesis
    using assms(1) listeners_renderer_receive [of s clock] unfolding RendererReceive by simp
qed (use assms(1) in simp_all)

lemma run_pointer_ok:
  assumes "ids_issued s" "pointer_ok (store s)" "length (listeners s) \<le> 1" "run_ok s evs"
  shows "pointer_ok (store (run s evs))"
  using assms
proof (induction evs arbitrary: s)
  case Nil
  then show ?case by (simp add: run_def)
next
  case (Cons e evs)
  from Cons.prems(4) have e: "event_ok s e" and r: "run_ok (step s e) evs" by simp_all
  have "pointer_ok (store (run (step s e) evs))"
    by (rule Cons.IH)
       (rule ids_issued_step [OF Cons.prems(1)],
        rule pointer_ok_step [OF Cons.prems(1,2,3) e],
        rule listeners_step [OF Cons.prems(3) e], rule r)
  then show ?case by (simp add: run_def)
qed

lemma run_ids_issued: "ids_issued s \<Longrightarrow> ids_issued (run s evs)"
  unfolding run_def by (induction evs arbitrary: s) (simp_all add: ids_issued_step)

lemma init_invariants:
  "ids_issued (init home)" "pointer_ok (store (init home))" "length (listeners (init home)) \<le> 1"
  by (simp_all add: ids_issued_def pointer_ok_def init_def constructor_def)

section \<open>The active terminal after a switch of project\<close>

lemma activeInScope_notifyStateChange [simp]:
  "activeInScope (notifyStateChange m) p = activeInScope m p"
  by (simp add: activeInScope_def)

lemma oldestActive_activeInScope: "oldestActive m p \<Longrightarrow> activeInScope m p"
  unfolding oldestActive_def activeInScope_def by blast

lemma activeInScope_restoreProjectSession:
  assumes "p \<in> projectPath ` set (terminals m)"
  shows "activeInScope (restoreProjectSession m p True) p"
proof (cases "map_of (localStorage m) (sessionKey p)")
  case None
  then show ?thesis
    using restoreFallback_result [of p m] assms
    by (simp add: restoreProjectSession_None oldestActive_activeInScope)
next
  case (Some sd)
  let ?v = "restoredView m p sd"
  let ?a = "the (sd_activeTerminalId sd)"
  let ?g = "activation (activeTerminalId ?v) ?a"
  show ?thesis
  proof (cases "truthy (sd_activeTerminalId sd)
         \<and> (case get_terminal (terminals ?v) ?a of
               Some terminal \<Rightarrow> projectPath terminal = p | None \<Rightarrow> False)")
    case True
    then obtain t where t: "get_terminal (terminals ?v) ?a = Some t" "projectPath t = p"
      by (auto split: option.splits)
    then have mem: "t \<in> set (terminals ?v)" "tid t = ?a" using get_terminal_SomeD by blast+
    have r: "restoreProjectSession m p True = setActiveTerminal ?v ?a"
      unfolding restoreProjectSession_Some [OF Some] using True by (rule if_P)
    have "?g t \<in> set (terminals (setActiveTerminal ?v ?a))"
      using mem(1) by (simp add: terminals_setActiveTerminal_map)
    moreover have "activeTerminalId (setActiveTerminal ?v ?a) = Some (tid (?g t))"
      using mem(2) by simp
    moreover have "isActive (?g t)" using mem(2) by (simp add: activation_def)
    moreover have "projectPath (?g t) = p" using t(2) by simp
    ultimately show ?thesis unfolding r activeInScope_def by blast
  next
    case False
    have "restoreProjectSession m p True = restoreFallback ?v p"
      unfolding restoreProjectSession_Some [OF Some] using False by (rule if_not_P)
    then show ?thesis
      using restoreFallback_result [of p ?v] assms by (simp add: oldestActive_activeInScope)
  qed
qed




text \<open>
  Why the two conditions on \<^verbatim>\<open>createTerminal\<close> and on the storage are there. With two
  calls pending, the first reply runs both handlers on its id \<^verbatim>\<open>term-2\<close>: the first makes
  the terminal active, the second replaces its state by a fresh inactive one, and the
  pointer designates a terminal that is not marked active; the second reply finds no
  handler, so \<^verbatim>\<open>term-3\<close> lives in the registry only. And a switch of project that cannot
  read the storage leaves the pointer on the terminal of the project that was left.
\<close>

lemma overlapping_creates_break_pointer:
  "length (listeners two_creates_pending) = 2
   \<and> to_renderer two_creates_pending
       = [TERMINAL_CREATED (Success ''term-2''), TERMINAL_CREATED (Success ''term-3'')]
   \<and> map (\<lambda>t. (tid t, isActive t))
        (terminals (store (run two_creates_pending [RendererReceive [2, 3]])))
       = [(''term-1'', True), (''term-2'', False)]
   \<and> activeTerminalId (store (run two_creates_pending [RendererReceive [2, 3]]))
       = Some ''term-2''
   \<and> \<not> pointer_ok (store (run two_creates_pending [RendererReceive [2, 3]]))
   \<and> store (run two_creates_pending [RendererReceive [2, 3], RendererReceive [4]])
       = store (run two_creates_pending [RendererReceive [2, 3]])
   \<and> map fst (ptyInstances (reg two_creates_pending)) = [''term-1'', ''term-2'', ''term-3'']"
  by code_simp

lemma unreadable_storage_leaves_pointer:
  "Some ''/A'' \<in> projectPath ` set (terminals (store stale_active))
   \<and> \<not> activeInScope (setCurrentProject (store stale_active) (Some ''/A'') True False)
         (Some ''/A'')
   \<and> pointer_ok (setCurrentProject (store stale_active) (Some ''/A'') True False)"
  by code_simp

section \<open>Creating a terminal\<close>

text \<open>
  Claim C4, as the code has it. A call of \<^verbatim>\<open>createTerminal\<close> below the limit registers a
  handler that holds the options of the call, with the project and the working directory
  fixed at the time of the call, and sends the request. When the successful reply is
  handled in a state reached from the initial one, and the handler of that call is the
  only one waiting, the new terminal is appended and no other terminal is changed, in
  whatever project: nothing is demoted. The new terminal is marked active exactly when it
  is the only terminal or the active pointer is unset (\<^verbatim>\<open>null\<close> or empty) at that moment;
  otherwise it starts inactive. Its project is the one the handler holds.
\<close>

theorem C4_created_terminal_active_only_without_pointer:
  "createTerminal s options =
     (if length (terminals (store s)) \<ge> maxTerminals then (s, Null)
      else (s\<lparr>listeners := listeners s @ [created_options (store s) options],
              to_main := to_main s
                @ [TERMINAL_CREATE (opt_cwd (created_options (store s) options))
                     (the (opt_projectPath (created_options (store s) options)))]\<rparr>,
            Pending))
   \<and> (to_renderer (run (init home) evs) = TERMINAL_CREATED (Success i) # q
      \<and> listeners (run (init home) evs) = [handler] \<longrightarrow>
     (\<exists>t. terminals (store (step (run (init home) evs) (RendererReceive clock)))
            = terminals (store (run (init home) evs)) @ [t]
          \<and> tid t = i
          \<and> isActive t = (terminals (store (run (init home) evs)) = []
                           \<or> \<not> truthy (activeTerminalId (store (run (init home) evs))))
          \<and> projectPath t = (case opt_projectPath handler of
                               Some pp \<Rightarrow> pp
                             | None \<Rightarrow> currentProjectPath (store (run (init home) evs)))))"
proof (intro conjI impI)
  show "createTerminal s options =
     (if length (terminals (store s)) \<ge> maxTerminals then (s, Null)
      else (s\<lparr>listeners := listeners s @ [created_options (store s) options],
              to_main := to_main s
                @ [TERMINAL_CREATE (opt_cwd (created_options (store s) options))
                     (the (opt_projectPath (created_options (store s) options)))]\<rparr>,
            Pending))"
    by (rule createTerminal_cases)
next
  let ?s = "run (init home) evs"
  let ?now = "case clock of [] \<Rightarrow> 0 | now # _ \<Rightarrow> now"
  assume h: "to_renderer ?s = TERMINAL_CREATED (Success i) # q \<and> listeners ?s = [handler]"
  have fresh: "\<not> has_terminal (terminals (store ?s)) i"
    by (rule ids_issued_created_fresh [where q = q])
       (rule run_ids_issued, rule init_invariants, rule conjunct1 [OF h])
  have st: "store (step ?s (RendererReceive clock)) = initializeTerminal (store ?s) i handler ?now"
    using h by (simp add: renderer_receive_created [where rest = q])
  show "\<exists>t. terminals (store (step ?s (RendererReceive clock))) = terminals (store ?s) @ [t]
          \<and> tid t = i
          \<and> isActive t = (terminals (store ?s) = [] \<or> \<not> truthy (activeTerminalId (store ?s)))
          \<and> projectPath t = (case opt_projectPath handler of
                               Some pp \<Rightarrow> pp | None \<Rightarrow> currentProjectPath (store ?s))"
    unfolding st terminals_initializeTerminal_fresh [OF fresh] by simp
qed

theorem C4_created_terminal_witness:
  "to_renderer (run (init None) create_in_B_pending) = [TERMINAL_CREATED (Success ''term-2'')]
   \<and> listeners (run (init None) create_in_B_pending)
       = [\<lparr>opt_cwd = Some ''/B'', opt_projectPath = Some (Some ''/B''), opt_name = None\<rparr>]
   \<and> (\<exists>t. terminals (store (step (run (init None) create_in_B_pending) (RendererReceive [2])))
            = terminals (store (run (init None) create_in_B_pending)) @ [t]
          \<and> tid t = ''term-2'' \<and> isActive t \<and> projectPath t = Some ''/B'')"
proof -
  let ?s = "run (init None) create_in_B_pending"
  let ?h = "\<lparr>opt_cwd = Some ''/B'', opt_projectPath = Some (Some ''/B''), opt_name = None\<rparr>"
  have a: "to_renderer ?s = [TERMINAL_CREATED (Success ''term-2'')]" by code_simp
  have b: "listeners ?s = [?h]" by code_simp
  have c: "terminals (store ?s) \<noteq> []" by code_simp
  have d: "\<not> truthy (activeTerminalId (store ?s))" by code_simp
  show ?thesis
    using a b c d
      C4_created_terminal_active_only_without_pointer [where home = None
        and evs = create_in_B_pending and i = "''term-2''" and q = "[]" and handler = ?h
        and clock = "[2]"]
    by auto
qed

text \<open>
  The claim as it is written fails for the second terminal of a scope: it is created
  inactive and the first one stays active.
\<close>

theorem C4_second_terminal_inactive_counterexample:
  "map tid (terminals (store (run one_terminal (create_round_trip default_options 2))))
       = [''term-1'', ''term-2'']
   \<and> map projectPath (terminals (store (run one_terminal (create_round_trip default_options 2))))
       = [None, None]
   \<and> map isActive (terminals (store (run one_terminal (create_round_trip default_options 2))))
       = [True, False]
   \<and> activeTerminalId (store (run one_terminal (create_round_trip default_options 2)))
       = Some ''term-1''"
  by code_simp

section \<open>Notifications of each operation\<close>

lemma notified_setViewMode:
  "onStateChange m \<Longrightarrow>
   notified (setViewMode m v) = notified m @ [current_snapshot (setViewMode m v)]"
  by (simp add: setViewMode_def notified_notifyStateChange)

lemma notified_setGridLayout:
  "onStateChange m \<Longrightarrow>
   notified (setGridLayout m g) = notified m @ [current_snapshot (setGridLayout m g)]"
  by (simp add: setGridLayout_def notified_notifyStateChange)

text \<open>
  Claim C5, as the code has it. The call of \<^verbatim>\<open>createTerminal\<close> and the main process
  leave the manager alone, so they do not notify, and neither does a reply that reports
  a failure. A reply that reports success runs \<^verbatim>\<open>_initializeTerminal\<close> once for every
  handler that waits (once when one call is pending), and each of these runs notifies
  once or twice. With a callback installed, \<^verbatim>\<open>setActiveTerminal\<close>, \<^verbatim>\<open>setViewMode\<close> and
  \<^verbatim>\<open>setGridLayout\<close> notify once. \<^verbatim>\<open>renameTerminal\<close> and \<^verbatim>\<open>closeTerminal\<close> notify once
  for a terminal in the map and not at all for an unknown id. Three operations notify
  twice, because they call \<^verbatim>\<open>setActiveTerminal\<close> and then notify themselves: closing the
  designated terminal while another one remains, \<^verbatim>\<open>_initializeTerminal\<close> of a terminal
  that becomes active, and switching to a project that has a terminal when the stored
  sessions can be read (when they cannot, the switch notifies once). The two
  notifications of one operation carry the same snapshot, that of the final state.
\<close>

theorem C5_notifications_per_operation:
  "store (fst (createTerminal s options)) = store s
   \<and> store (main_receive s spawn_ok) = store s
   \<and> (to_renderer s = TERMINAL_CREATED (Failure e) # q \<longrightarrow>
        store (renderer_receive s clock) = store s)
   \<and> (to_renderer s = TERMINAL_CREATED (Success j) # q \<longrightarrow>
        store (renderer_receive s clock) = initializeAll (store s) j (listeners s) clock)
   \<and> initializeAll m j [handler] (now # clock) = initializeTerminal m j handler now
   \<and> (onStateChange m \<longrightarrow>
     length (notified m) + length handlers
       \<le> length (notified (initializeAll m j handlers clock))
   \<and> length (notified (initializeAll m j handlers clock))
       \<le> length (notified m) + 2 * length handlers
   \<and> notified (setActiveTerminal m i) = notified m @ [current_snapshot (setActiveTerminal m i)]
   \<and> notified (setViewMode m v) = notified m @ [current_snapshot (setViewMode m v)]
   \<and> notified (setGridLayout m g) = notified m @ [current_snapshot (setGridLayout m g)]
   \<and> notified (renameTerminal m i n)
       = notified m @ replicate (if has_terminal (terminals m) i then 1 else 0)
                        (current_snapshot (renameTerminal m i n))
   \<and> notified (closeTerminal m i)
       = notified m @ replicate
           (if \<not> has_terminal (terminals m) i then 0
            else if activeTerminalId m = Some i \<and> delete_terminal (terminals m) i \<noteq> []
                    \<and> tid (last (delete_terminal (terminals m) i)) \<noteq> [] then 2
            else 1)
           (current_snapshot (closeTerminal m i))
   \<and> notified (initializeTerminal m i handler now)
       = notified m @ replicate
           (if length (terminals (initializeTerminal m i handler now)) = 1
               \<or> \<not> truthy (activeTerminalId m) then 2 else 1)
           (current_snapshot (initializeTerminal m i handler now))
   \<and> notified (setCurrentProject m p save_ok restore_ok)
       = notified m @ replicate
           (if restore_ok \<and> p \<in> projectPath ` set (terminals m) then 2 else 1)
           (current_snapshot (setCurrentProject m p save_ok restore_ok)))"
proof (intro impI conjI)
  show "store (fst (createTerminal s options)) = store s" by simp
  show "store (main_receive s spawn_ok) = store s" by simp
  show "initializeAll m j [handler] (now # clock) = initializeTerminal m j handler now" by simp
next
  assume "to_renderer s = TERMINAL_CREATED (Failure e) # q"
  then show "store (renderer_receive s clock) = store s"
    by (simp add: renderer_receive_failed)
next
  assume "to_renderer s = TERMINAL_CREATED (Success j) # q"
  then show "store (renderer_receive s clock) = initializeAll (store s) j (listeners s) clock"
    by (simp add: renderer_receive_created)
next
  assume a: "onStateChange m"
  from length_notified_initializeAll [OF a, of handlers j clock]
  show "length (notified m) + length handlers
          \<le> length (notified (initializeAll m j handlers clock))"
    and "length (notified (initializeAll m j handlers clock))
          \<le> length (notified m) + 2 * length handlers"
    by simp_all
  show "notified (setActiveTerminal m i) = notified m @ [current_snapshot (setActiveTerminal m i)]"
    using a by (simp add: notified_setActiveTerminal)
  show "notified (setViewMode m v) = notified m @ [current_snapshot (setViewMode m v)]"
    using a by (rule notified_setViewMode)
  show "notified (setGridLayout m g) = notified m @ [current_snapshot (setGridLayout m g)]"
    using a by (rule notified_setGridLayout)
  show "notified (renameTerminal m i n)
       = notified m @ replicate (if has_terminal (terminals m) i then 1 else 0)
                        (current_snapshot (renameTerminal m i n))"
    using a by (rule notified_renameTerminal)
  show "notified (closeTerminal m i)
       = notified m @ replicate
           (if \<not> has_terminal (terminals m) i then 0
            else if activeTerminalId m = Some i \<and> delete_terminal (terminals m) i \<noteq> []
                    \<and> tid (last (delete_terminal (terminals m) i)) \<noteq> [] then 2
            else 1)
           (current_snapshot (closeTerminal m i))"
    using a by (rule notified_closeTerminal)
  show "notified (initializeTerminal m i handler now)
       = notified m @ replicate
           (if length (terminals (initializeTerminal m i handler now)) = 1
               \<or> \<not> truthy (activeTerminalId m) then 2 else 1)
           (current_snapshot (initializeTerminal m i handler now))"
    using a by (rule notified_initializeTerminal)
  show "notified (setCurrentProject m p save_ok restore_ok)
       = notified m @ replicate
           (if restore_ok \<and> p \<in> projectPath ` set (terminals m) then 2 else 1)
           (current_snapshot (setCurrentProject m p save_ok restore_ok))"
    using a by (rule notified_setCurrentProject)
qed

theorem C5_notifications_witness:
  "to_renderer failed_create_pending = [TERMINAL_CREATED (Failure SpawnFailed)]
   \<and> store (renderer_receive failed_create_pending [2]) = store failed_create_pending
   \<and> to_renderer (run (init None) create_in_B_pending) = [TERMINAL_CREATED (Success ''term-2'')]
   \<and> store (renderer_receive (run (init None) create_in_B_pending) [2])
       = initializeAll (store (run (init None) create_in_B_pending)) ''term-2''
           (listeners (run (init None) create_in_B_pending)) [2]
   \<and> onStateChange (store two_scopes)
   \<and> notified (setViewMode (store two_scopes) ''grid'')
       = notified (store two_scopes) @ [current_snapshot (setViewMode (store two_scopes) ''grid'')]
   \<and> notified (renameTerminal (store two_scopes) ''term-7'' ''db'') = notified (store two_scopes)
   \<and> notified (closeTerminal (store two_scopes) ''term-2'')
       = notified (store two_scopes)
         @ [current_snapshot (closeTerminal (store two_scopes) ''term-2''),
            current_snapshot (closeTerminal (store two_scopes) ''term-2'')]
   \<and> notified (setCurrentProject (store two_scopes) (Some ''/C'') True True)
       = notified (store two_scopes)
         @ [current_snapshot (setCurrentProject (store two_scopes) (Some ''/C'') True True)]
   \<and> notified (setCurrentProject (store two_scopes) None True False)
       = notified (store two_scopes)
         @ [current_snapshot (setCurrentProject (store two_scopes) None True False)]"
proof -
  have a: "onStateChange (store two_scopes)" by code_simp
  have b: "\<not> has_terminal (terminals (store two_scopes)) ''term-7''" by code_simp
  have c: "has_terminal (terminals (store two_scopes)) ''term-2''" by code_simp
  have d: "activeTerminalId (store two_scopes) = Some ''term-2''" by code_simp
  have e: "delete_terminal (terminals (store two_scopes)) ''term-2'' \<noteq> []" by code_simp
  have f: "tid (last (delete_terminal (terminals (store two_scopes)) ''term-2'')) \<noteq> []"
    by code_simp
  have g: "Some ''/C'' \<notin> set (map projectPath (terminals (store two_scopes)))" by code_simp
  have h: "to_renderer failed_create_pending = [TERMINAL_CREATED (Failure SpawnFailed)]"
    by code_simp
  have k: "to_renderer (run (init None) create_in_B_pending)
           = [TERMINAL_CREATED (Success ''term-2'')]"
    by code_simp
  show ?thesis
    using a b c d e f g h k
      C5_notifications_per_operation [where m = "store two_scopes" and i = "''term-7''"
        and n = "''db''" and v = "''grid''" and p = "Some ''/C''" and save_ok = True
        and restore_ok = True and s = failed_create_pending and e = SpawnFailed and q = "[]"
        and clock = "[2]"]
      C5_notifications_per_operation [where m = "store two_scopes" and i = "''term-2''"
        and p = None and save_ok = True and restore_ok = False
        and s = "run (init None) create_in_B_pending" and j = "''term-2''" and q = "[]"
        and clock = "[2]"]
    by (simp add: numeral_2_eq_2)
qed

text \<open>
  The claim as it is written fails for the first terminal, whose creation notifies twice,
  and for renaming an unknown id, which does not notify.
\<close>

theorem C5_two_notifications_counterexample:
  "onStateChange (store subscribed)
   \<and> notified (store subscribed) = []
   \<and> length (notified (store (run subscribed (create_round_trip default_options 1)))) = 2
   \<and> length (notified (renameTerminal (store subscribed) ''term-5'' ''db'')) = 0"
  by code_simp

section \<open>Names after a rename\<close>

lemma names_agree_iff:
  "names_agree m \<longleftrightarrow>
     (\<forall>t \<in> set (terminals m). customName t = None \<or> customName t = Some (name t))"
  by (simp add: names_agree_def list_all_iff)

lemma names_agree_notifyStateChange [simp]:
  "names_agree (notifyStateChange m) = names_agree m"
  by (simp add: names_agree_def)

lemma names_agree_setActiveTerminal:
  "names_agree m \<Longrightarrow> names_agree (setActiveTerminal m i)"
  by (auto simp: names_agree_iff terminals_setActiveTerminal_map)

lemma names_agree_subset:
  "names_agree m \<Longrightarrow> set (terminals m') \<subseteq> set (terminals m) \<Longrightarrow> names_agree m'"
  by (auto simp: names_agree_iff)

lemma names_agree_closeTerminal:
  assumes "names_agree m"
  shows "names_agree (closeTerminal m i)"
proof -
  let ?ts = "delete_terminal (terminals m) i"
  have d: "names_agree (m\<lparr>terminals := ?ts, activeTerminalId := a\<rparr>)" for a
    by (rule names_agree_subset [OF assms]) (auto simp: delete_terminal_def)
  have d': "names_agree (m\<lparr>terminals := ?ts\<rparr>)"
    by (rule names_agree_subset [OF assms]) (auto simp: delete_terminal_def)
  show ?thesis
    using assms d d' by (simp add: closeTerminal_def Let_def names_agree_setActiveTerminal)
qed

lemma names_agree_renameTerminal:
  "names_agree m \<Longrightarrow> names_agree (renameTerminal m i n)"
  by (auto simp: names_agree_iff renameTerminal_def modify_terminal_def)

lemma names_agree_restoredView:
  "names_agree m \<Longrightarrow> names_agree (restoredView m p sd)"
  by (auto simp: names_agree_iff restoredView_def applyName_def truthy_def split: option.splits)

lemma names_agree_updates [simp]:
  "names_agree (m\<lparr>activeTerminalId := a\<rparr>) = names_agree m"
  "names_agree (m\<lparr>onStateChange := b\<rparr>) = names_agree m"
  "names_agree (setViewMode m v) = names_agree m"
  "names_agree (setGridLayout m g) = names_agree m"
  by (simp_all add: names_agree_def)

lemma names_agree_restoreFallback:
  "names_agree m \<Longrightarrow> names_agree (restoreFallback m p)"
  by (simp add: restoreFallback_def Let_def names_agree_setActiveTerminal)

lemma names_agree_restoreProjectSession:
  "names_agree m \<Longrightarrow> names_agree (restoreProjectSession m p ok)"
  by (cases ok; cases "map_of (localStorage m) (sessionKey p)")
     (simp_all add: restoreProjectSession_None restoreProjectSession_Some
        restoreProjectSession_failed
        names_agree_restoreFallback names_agree_setActiveTerminal names_agree_restoredView)

lemma names_agree_leaveProject [simp]: "names_agree (leaveProject m p ok) = names_agree m"
  by (simp add: names_agree_def)

lemma names_agree_setCurrentProject:
  "names_agree m \<Longrightarrow> names_agree (setCurrentProject m p save_ok restore_ok)"
  by (simp add: setCurrentProject_leaveProject names_agree_restoreProjectSession)

lemma set_set_terminal: "set (set_terminal ts t) \<subseteq> insert t (set ts)"
  by (auto simp: set_terminal_def)

lemma names_agree_initializeTerminal:
  assumes "names_agree m"
  shows "names_agree (initializeTerminal m i options now)"
proof -
  have a: "names_agree (m\<lparr>terminalCounter := c, terminals := set_terminal (terminals m) t\<rparr>)"
    if "customName t = None" for c t
    using assms that set_set_terminal [of "terminals m" t] by (auto simp: names_agree_iff)
  show ?thesis
    unfolding initializeTerminal_unfold Let_def
    by (simp add: names_agree_setActiveTerminal a)
qed

lemma names_agree_initializeAll:
  "names_agree m \<Longrightarrow> names_agree (initializeAll m i handlers clock)"
  by (induction handlers arbitrary: m clock) (simp_all add: names_agree_initializeTerminal)

lemma names_agree_renderer_receive:
  "names_agree (store s) \<Longrightarrow> names_agree (store (renderer_receive s clock))"
  by (simp add: renderer_receive_def onTerminalCreated_def onTerminalDestroyed_def
      names_agree_initializeAll names_agree_closeTerminal
      split: list.split renderer_msg.split reply.split)

lemma names_agree_step: "names_agree (store s) \<Longrightarrow> names_agree (store (step s e))"
  by (cases e)
     (simp_all add: names_agree_closeTerminal names_agree_setCurrentProject
        names_agree_setActiveTerminal names_agree_renameTerminal names_agree_renderer_receive)

lemma names_agree_run: "names_agree (store s) \<Longrightarrow> names_agree (store (run s evs))"
  unfolding run_def by (induction evs arbitrary: s) (simp_all add: names_agree_step)

lemma names_agree_init: "names_agree (store (init home))"
  by (simp add: names_agree_def init_def constructor_def)

lemma displayName_names_agree:
  "customName t = None \<or> customName t = Some (name t) \<Longrightarrow> displayName t = name t"
  by (auto simp: displayName_def truthy_def)

text \<open>
  Claim C9. \<^verbatim>\<open>renameTerminal\<close> of a terminal in the map sets both \<^verbatim>\<open>customName\<close> and
  \<^verbatim>\<open>name\<close> to the new name, so the tab shows the new name; the result does not depend on
  the name the terminal had (the default name cannot be recovered from it). Restoring a
  session that can be read does the same with every saved name of a terminal of the
  project (a session that cannot be read changes no name). And in every
  state reached from the initial one a terminal that has a \<^verbatim>\<open>customName\<close> has the same
  string as \<^verbatim>\<open>name\<close>, so that the tab shows \<^verbatim>\<open>name\<close>: falling back from \<^verbatim>\<open>customName\<close> to
  \<^verbatim>\<open>name\<close> never shows the default name again.
\<close>

theorem C9_rename_overwrites_both_names:
  "(get_terminal (terminals m) i = Some t \<longrightarrow>
      get_terminal (terminals (renameTerminal m i n)) i = Some (t\<lparr>customName := Some n, name := n\<rparr>)
      \<and> displayName (t\<lparr>customName := Some n, name := n\<rparr>) = n)
   \<and> renameTerminal (m\<lparr>terminals := modify_terminal i (\<lambda>t. t\<lparr>name := x\<rparr>) (terminals m)\<rparr>) i n
       = renameTerminal m i n
   \<and> (map_of (localStorage m) (sessionKey p) = Some sd \<and> get_terminal (terminals m) i = Some t
        \<and> projectPath t = p \<and> map_of (sd_terminalNames sd) i = Some s \<and> s \<noteq> [] \<longrightarrow>
      (\<exists>t'. get_terminal (terminals (restoreProjectSession m p True)) i = Some t'
            \<and> name t' = s \<and> customName t' = Some s \<and> displayName t' = s))
   \<and> terminals (restoreProjectSession m p False) = terminals m
   \<and> names_agree (store (run (init home) evs))
   \<and> list_all (\<lambda>t. displayName t = name t) (terminals (store (run (init home) evs)))"
proof (intro conjI impI)
  show na: "names_agree (store (run (init home) evs))"
    by (rule names_agree_run) (rule names_agree_init)
  show "list_all (\<lambda>t. displayName t = name t) (terminals (store (run (init home) evs)))"
    using na unfolding names_agree_iff list_all_iff
    by (blast intro: displayName_names_agree)
next
  assume "get_terminal (terminals m) i = Some t"
  then show "get_terminal (terminals (renameTerminal m i n)) i
             = Some (t\<lparr>customName := Some n, name := n\<rparr>)"
    by (rule renameTerminal_present)
next
  show "displayName (t\<lparr>customName := Some n, name := n\<rparr>) = n" by simp
next
  show "renameTerminal (m\<lparr>terminals := modify_terminal i (\<lambda>t. t\<lparr>name := x\<rparr>) (terminals m)\<rparr>) i n
       = renameTerminal m i n"
    by (rule renameTerminal_forgets_name)
next
  show "terminals (restoreProjectSession m p False) = terminals m"
    by (simp add: restoreProjectSession_failed)
next
  assume "map_of (localStorage m) (sessionKey p) = Some sd \<and> get_terminal (terminals m) i = Some t
        \<and> projectPath t = p \<and> map_of (sd_terminalNames sd) i = Some s \<and> s \<noteq> []"
  then show "\<exists>t'. get_terminal (terminals (restoreProjectSession m p True)) i = Some t'
            \<and> name t' = s \<and> customName t' = Some s \<and> displayName t' = s"
    using restore_applies_name by blast
qed

theorem C9_rename_witness:
  "get_terminal (terminals (store stale_name)) ''term-1'' = Some stale_name_terminal
   \<and> get_terminal (terminals (renameTerminal (store stale_name) ''term-1'' ''api'')) ''term-1''
       = Some (stale_name_terminal\<lparr>customName := Some ''api'', name := ''api''\<rparr>)
   \<and> map_of (localStorage (store stale_name)) (sessionKey (Some ''/A'')) = Some stale_name_record
   \<and> projectPath stale_name_terminal = Some ''/A''
   \<and> map_of (sd_terminalNames stale_name_record) ''term-1'' = Some ''db''
   \<and> (\<exists>t'. get_terminal (terminals (restoreProjectSession (store stale_name) (Some ''/A'') True))
               ''term-1'' = Some t'
            \<and> name t' = ''db'' \<and> customName t' = Some ''db'' \<and> displayName t' = ''db'')"
proof -
  have a: "get_terminal (terminals (store stale_name)) ''term-1'' = Some stale_name_terminal"
    by code_simp
  have b: "map_of (localStorage (store stale_name)) (sessionKey (Some ''/A''))
           = Some stale_name_record"
    by code_simp
  have c: "projectPath stale_name_terminal = Some ''/A''"
    by code_simp
  have d: "map_of (sd_terminalNames stale_name_record) ''term-1'' = Some ''db''"
    by code_simp
  have e: "''db'' \<noteq> []" by simp
  show ?thesis
    using a b c d e
      C9_rename_overwrites_both_names [where m = "store stale_name" and i = "''term-1''"
        and t = stale_name_terminal and n = "''api''" and p = "Some ''/A''"
        and sd = stale_name_record and s = "''db''"]
    by blast
qed

section \<open>Closing the active terminal\<close>

text \<open>
  Claim C3 at a concrete state. The current project \<^verbatim>\<open>/A\<close> holds \<^verbatim>\<open>term-1\<close> (active) and
  \<^verbatim>\<open>term-2\<close>, project \<^verbatim>\<open>/B\<close> holds \<^verbatim>\<open>term-3\<close>. Closing \<^verbatim>\<open>term-1\<close> removes it from the
  visible terminals, and the exit of its shell, once the renderer has handled the
  \<^verbatim>\<open>TERMINAL_DESTROYED\<close> message, leaves the same manager as the explicit close. But
  the terminal promoted is the last key of the whole map, \<^verbatim>\<open>term-3\<close> of project \<^verbatim>\<open>/B\<close>;
  \<^verbatim>\<open>term-2\<close>, the terminal that remains in \<^verbatim>\<open>/A\<close>, stays inactive.
\<close>

theorem C3_close_promotes_last_key_of_map:
  "currentProjectPath (store close_in_A) = Some ''/A''
   \<and> activeTerminalId (store close_in_A) = Some ''term-1''
   \<and> map tid (terminals (store close_in_A)) = [''term-1'', ''term-2'', ''term-3'']
   \<and> map projectPath (terminals (store close_in_A)) = [Some ''/A'', Some ''/A'', Some ''/B'']
   \<and> map tid (getTerminalStates (closeTerminal (store close_in_A) ''term-1'')) = [''term-2'']
   \<and> map isActive (getTerminalStates (closeTerminal (store close_in_A) ''term-1'')) = [False]
   \<and> activeTerminalId (closeTerminal (store close_in_A) ''term-1'') = Some ''term-3''
   \<and> store (run close_in_A [ProcessExit ''term-1'', RendererReceive []])
       = closeTerminal (store close_in_A) ''term-1''"
  by code_simp

end
